theory Spec2Isabelle
  imports Complex_Main "HOL-Library.Log_Nat"
begin

section \<open>Go strings\<close>

text \<open>
  A Go \<^verbatim>\<open>string\<close> is a sequence of bytes; \<^typ>\<open>string\<close> is a list of
  \<^typ>\<open>char\<close>, and a \<^typ>\<open>char\<close> is one byte. \<^verbatim>\<open>len\<close> and slicing count
  bytes, as \<^const>\<open>length\<close>, \<^const>\<open>take\<close> and \<^const>\<open>drop\<close> do here. Text
  outside ASCII is written as its UTF-8 bytes.

  The functions of package \<^verbatim>\<open>strings\<close> that the program calls with a
  one-byte separator take that byte as a \<^typ>\<open>char\<close>.
\<close>

definition strings_Count :: "string \<Rightarrow> char \<Rightarrow> nat" where
  "strings_Count s sep = length (filter (\<lambda>c. c = sep) s)"

fun strings_Split :: "string \<Rightarrow> char \<Rightarrow> string list" where
  "strings_Split [] sep = [[]]"
| "strings_Split (c # s) sep =
     (if c = sep then [] # strings_Split s sep
      else (case strings_Split s sep of
              [] \<Rightarrow> [[c]]
            | p # ps \<Rightarrow> (c # p) # ps))"

definition strings_Contains :: "string \<Rightarrow> char \<Rightarrow> bool" where
  "strings_Contains s sep = (sep \<in> set s)"

text \<open>\<^verbatim>\<open>strings.ReplaceAll(s, old, "")\<close> for a one-byte \<^verbatim>\<open>old\<close>.\<close>

definition strings_ReplaceAll_empty :: "string \<Rightarrow> char \<Rightarrow> string" where
  "strings_ReplaceAll_empty s old = filter (\<lambda>c. c \<noteq> old) s"

definition strings_HasPrefix :: "string \<Rightarrow> string \<Rightarrow> bool" where
  "strings_HasPrefix s p = (length p \<le> length s \<and> take (length p) s = p)"

definition strings_TrimPrefix :: "string \<Rightarrow> string \<Rightarrow> string" where
  "strings_TrimPrefix s p = (if strings_HasPrefix s p then drop (length p) s else s)"

fun strings_Join :: "string list \<Rightarrow> string \<Rightarrow> string" where
  "strings_Join [] sep = []"
| "strings_Join [x] sep = x"
| "strings_Join (x # y # xs) sep = x @ sep @ strings_Join (y # xs) sep"

text \<open>
  Indexing a slice panics out of range; \<^const>\<open>None\<close> is the panic.
\<close>

definition go_index :: "'a list \<Rightarrow> nat \<Rightarrow> 'a option" where
  "go_index xs i = (if i < length xs then Some (xs ! i) else None)"

section \<open>IP masking\<close>

text \<open>
  \<^verbatim>\<open>maskIP\<close> (main.go, lines 435-452). The result is \<^const>\<open>None\<close> when the
  Go function would panic on \<^verbatim>\<open>parts[3]\<close>.
\<close>

definition maskIP :: "string \<Rightarrow> string option" where
  "maskIP ip =
     (if strings_Count ip (CHR ''.'') = 3 then
        (let parts = strings_Split ip (CHR ''.'') in
         case go_index parts 3 of
           None \<Rightarrow> None
         | Some p \<Rightarrow> Some (''x.x.x.'' @ p))
      else if strings_Contains ip (CHR '':'') then
        (let ipStripped = strings_ReplaceAll_empty ip (CHR '':'') in
         if length ipStripped > 8
         then Some (''...'' @ drop (length ipStripped - 8) ipStripped)
         else Some (''...'' @ ipStripped))
      else Some ip)"

text \<open>
  The words of the specification: the text after the last occurrence of a byte, and the
  last \<open>n\<close> bytes of a string.
\<close>

definition after_last :: "char \<Rightarrow> string \<Rightarrow> string" where
  "after_last sep s = rev (takeWhile (\<lambda>c. c \<noteq> sep) (rev s))"

definition last_bytes :: "nat \<Rightarrow> string \<Rightarrow> string" where
  "last_bytes n s = rev (take n (rev s))"

section \<open>Machine numbers\<close>

text \<open>
  A Go \<^verbatim>\<open>int\<close> (64 bits on the platforms the program is built for) and an
  \<^verbatim>\<open>int64\<close> are integers in \<open>[-2^63, 2^63)\<close>; their arithmetic wraps around.
  \<^verbatim>\<open>uint64\<close> is \<open>[0, 2^64)\<close>. The model computes on \<^typ>\<open>int\<close> and wraps
  the result of every machine operation.
\<close>

definition int64_wrap :: "int \<Rightarrow> int" where
  "int64_wrap x = (x + 2 ^ 63) mod 2 ^ 64 - 2 ^ 63"

definition is_int64 :: "int \<Rightarrow> bool" where
  "is_int64 x = (- (2 ^ 63) \<le> x \<and> x < 2 ^ 63)"

definition min_int64 :: int where
  "min_int64 = - (2 ^ 63)"

definition go_int_sub :: "int \<Rightarrow> int \<Rightarrow> int" where
  "go_int_sub a b = int64_wrap (a - b)"

definition go_int_mul :: "int \<Rightarrow> int \<Rightarrow> int" where
  "go_int_mul a b = int64_wrap (a * b)"

text \<open>
  Go's integer division truncates towards zero, and the remainder has the sign of the
  dividend; \<^const>\<open>divide\<close> and \<^const>\<open>modulo\<close> on \<^typ>\<open>int\<close> round down.
\<close>

definition go_int_div :: "int \<Rightarrow> int \<Rightarrow> int" where
  "go_int_div a b = sgn a * sgn b * (\<bar>a\<bar> div \<bar>b\<bar>)"

definition go_int_rem :: "int \<Rightarrow> int \<Rightarrow> int" where
  "go_int_rem a b = a - b * go_int_div a b"

text \<open>
  A \<^verbatim>\<open>float64\<close> metric is modelled by the real number it denotes (a finite
  value: not-a-number and the infinities are not modelled). The conversion
  \<^verbatim>\<open>float64(n)\<close> of an integer rounds to the nearest number with a 53-bit
  significand, ties to the even significand: \<open>q\<close> is the spacing of such numbers
  around \<open>\<bar>n\<bar>\<close>.
\<close>

definition round_to_even :: "int \<Rightarrow> int \<Rightarrow> int" where
  "round_to_even a q =
     (let m = a div q; r = a mod q
      in if 2 * r < q then m * q
         else if q < 2 * r then (m + 1) * q
         else if even m then m * q
         else (m + 1) * q)"

definition float64_of_int :: "int \<Rightarrow> real" where
  "float64_of_int n =
     (let a = \<bar>n\<bar>; q = 2 ^ nat (bitlen a - 53)
      in of_int (sgn n * round_to_even a q))"

text \<open>
  The conversion \<^verbatim>\<open>int(x)\<close> of a \<^verbatim>\<open>float64\<close> truncates towards zero.
\<close>

definition go_int_of_float :: "real \<Rightarrow> int" where
  "go_int_of_float x = (if 0 \<le> x then \<lfloor>x\<rfloor> else - \<lfloor>- x\<rfloor>)"

section \<open>Formatting\<close>

definition digit_char :: "nat \<Rightarrow> char" where
  "digit_char d = ''0123456789'' ! (d mod 10)"

fun show_nat :: "nat \<Rightarrow> string" where
  "show_nat n = (if n < 10 then [digit_char n] else show_nat (n div 10) @ [digit_char (n mod 10)])"

declare show_nat.simps [simp del]

text \<open>The verb \<^verbatim>\<open>%d\<close> of \<^verbatim>\<open>fmt.Sprintf\<close>.\<close>

definition Sprintf_d :: "int \<Rightarrow> string" where
  "Sprintf_d i = (if i < 0 then ''-'' @ show_nat (nat (- i)) else show_nat (nat i))"

text \<open>Decimal digits padded with zeros on the left to a width.\<close>

definition pad_nat :: "nat \<Rightarrow> nat \<Rightarrow> string" where
  "pad_nat w n = replicate (w - length (show_nat n)) (CHR ''0'') @ show_nat n"

text \<open>
  The verbs \<^verbatim>\<open>%.1f\<close> and \<^verbatim>\<open>%.2f\<close>: the exact value is rounded to
  \<open>prec\<close> decimals, ties to even.
\<close>

definition Sprintf_f :: "nat \<Rightarrow> real \<Rightarrow> string" where
  "Sprintf_f prec x =
     (let s = 10 ^ prec;
          y = \<bar>x\<bar> * of_int s;
          f = \<lfloor>y\<rfloor>;
          n = (if y - of_int f < 1 / 2 then f
               else if 1 / 2 < y - of_int f then f + 1
               else if even f then f else f + 1)
      in (if x < 0 then ''-'' else '''') @ show_nat (nat (n div s)) @
         (if prec = 0 then '''' else ''.'' @ pad_nat prec (nat (n mod s))))"

section \<open>Configuration and the monitor\<close>

text \<open>The struct \<^verbatim>\<open>Config\<close> (main.go, lines 25-32).\<close>

record Config =
  BotToken :: string
  ChatID :: int
  ReportTime :: string
  CustomMessage :: string
  CPUThreshold :: int
  MemThreshold :: int

text \<open>
  The struct \<^verbatim>\<open>ServerMonitor\<close> (main.go, lines 35-40). The field
  \<^verbatim>\<open>alertSent\<close> is a Go map from metric keys to flags. In place of the bot,
  \<open>outbox\<close> lists the texts handed to \<^verbatim>\<open>bot.Send\<close>, oldest first; the
  field \<^verbatim>\<open>lastStats\<close> is written once at start and never read, and is left out.
\<close>

record ServerMonitor =
  config :: Config
  alertSent :: "string \<rightharpoonup> bool"
  outbox :: "string list"

text \<open>Reading a Go map at a missing key gives the zero value, \<^verbatim>\<open>false\<close>.\<close>

definition alertSent_get :: "ServerMonitor \<Rightarrow> string \<Rightarrow> bool" where
  "alertSent_get m k = (case alertSent m k of None \<Rightarrow> False | Some b \<Rightarrow> b)"

definition alertSent_set :: "ServerMonitor \<Rightarrow> string \<Rightarrow> bool \<Rightarrow> ServerMonitor" where
  "alertSent_set m k b = m\<lparr>alertSent := (alertSent m)(k \<mapsto> b)\<rparr>"

text \<open>
  \<^verbatim>\<open>sendMessage\<close> (main.go, lines 496-504) hands the text to the bot; a failed
  delivery is logged and changes nothing else.
\<close>

definition sendMessage :: "ServerMonitor \<Rightarrow> string \<Rightarrow> ServerMonitor" where
  "sendMessage m message = m\<lparr>outbox := outbox m @ [message]\<rparr>"

text \<open>\<^verbatim>\<open>NewServerMonitor\<close> (main.go, lines 127-148): the map starts empty.\<close>

definition NewServerMonitor :: "Config \<Rightarrow> ServerMonitor" where
  "NewServerMonitor c = \<lparr>config = c, alertSent = Map.empty, outbox = []\<rparr>"

section \<open>Metric retrieval\<close>

text \<open>
  The metric library is outside the program. A call of it returns a pair of a result
  and an error, \<^const>\<open>None\<close> for \<^verbatim>\<open>nil\<close>; the pair is an input of the
  model.
\<close>

type_synonym go_error = string

text \<open>\<^verbatim>\<open>getCPUUsage\<close> (main.go, lines 328-337).\<close>

definition getCPUUsage :: "real list \<times> go_error option \<Rightarrow> real" where
  "getCPUUsage r =
     (case r of (percent, err) \<Rightarrow>
        if err \<noteq> None \<or> length percent = 0 then 0 else percent ! 0)"

record VirtualMemoryStat =
  mem_Total :: nat
  mem_Used :: nat
  mem_UsedPercent :: real

definition VirtualMemoryStat_zero :: VirtualMemoryStat where
  "VirtualMemoryStat_zero = \<lparr>mem_Total = 0, mem_Used = 0, mem_UsedPercent = 0\<rparr>"

text \<open>\<^verbatim>\<open>getMemoryInfo\<close> (main.go, lines 340-349).\<close>

definition getMemoryInfo :: "VirtualMemoryStat \<times> go_error option \<Rightarrow> VirtualMemoryStat" where
  "getMemoryInfo r =
     (case r of (memInfo, err) \<Rightarrow>
        if err \<noteq> None then VirtualMemoryStat_zero else memInfo)"

section \<open>The real-time alert loop\<close>

definition cpu_alert_text :: "real \<Rightarrow> string" where
  "cpu_alert_text cpuPercent =
     [CHR 0xF0, CHR 0x9F, CHR 0x9A, CHR 0xA8] @ '' *CPU'' @
     [CHR 0xE5, CHR 0x91, CHR 0x8A, CHR 0xE8, CHR 0xAD, CHR 0xA6] @ ''*: '' @
     [CHR 0xE4, CHR 0xBD, CHR 0xBF, CHR 0xE7, CHR 0x94, CHR 0xA8, CHR 0xE7, CHR 0x8E, CHR 0x87,
      CHR 0xE8, CHR 0xBE, CHR 0xBE, CHR 0xE5, CHR 0x88, CHR 0xB0] @ '' '' @
     Sprintf_f 1 cpuPercent @ ''%''"

definition mem_alert_text :: "real \<Rightarrow> string" where
  "mem_alert_text usedPercent =
     [CHR 0xF0, CHR 0x9F, CHR 0x9A, CHR 0xA8] @ '' *'' @
     [CHR 0xE5, CHR 0x86, CHR 0x85, CHR 0xE5, CHR 0xAD, CHR 0x98, CHR 0xE5, CHR 0x91, CHR 0x8A,
      CHR 0xE8, CHR 0xAD, CHR 0xA6] @ ''*: '' @
     [CHR 0xE4, CHR 0xBD, CHR 0xBF, CHR 0xE7, CHR 0x94, CHR 0xA8, CHR 0xE7, CHR 0x8E, CHR 0x87,
      CHR 0xE8, CHR 0xBE, CHR 0xBE, CHR 0xE5, CHR 0x88, CHR 0xB0] @ '' '' @
     Sprintf_f 1 usedPercent @ ''%''"

text \<open>
  The body of the loop of \<^verbatim>\<open>startRealTimeAlert\<close> (main.go, lines 203-222) holds
  the same block twice, once for the CPU and once for the memory: \<open>alert_block\<close> is
  that block, given the metric's key in the map, its message, its reading and its
  threshold.
\<close>

definition alert_block ::
  "string \<Rightarrow> (real \<Rightarrow> string) \<Rightarrow> real \<Rightarrow> int \<Rightarrow> ServerMonitor \<Rightarrow> ServerMonitor" where
  "alert_block key render percent threshold m =
     (if percent > float64_of_int threshold \<and> \<not> alertSent_get m key then
        alertSent_set (sendMessage m (render percent)) key True
      else if percent \<le> float64_of_int (go_int_sub threshold 10) then
        alertSent_set m key False
      else m)"

text \<open>One tick of the loop: both metrics are read, then each block runs.\<close>

definition realTimeAlert_tick ::
  "ServerMonitor \<Rightarrow>
   (real list \<times> go_error option) \<times> (VirtualMemoryStat \<times> go_error option) \<Rightarrow>
   ServerMonitor" where
  "realTimeAlert_tick m sample =
     (case sample of (cpu_result, mem_result) \<Rightarrow>
        let cpuPercent = getCPUUsage cpu_result;
            memInfo = getMemoryInfo mem_result;
            m1 = alert_block ''cpu'' cpu_alert_text cpuPercent (CPUThreshold (config m)) m;
            m2 = alert_block ''mem'' mem_alert_text (mem_UsedPercent memInfo)
                   (MemThreshold (config m1)) m1
        in m2)"

text \<open>
  \<^verbatim>\<open>startRealTimeAlert\<close> never returns: it runs one tick every two seconds.
  The state after the first ticks is the fold of the tick over their samples.
\<close>

fun startRealTimeAlert ::
  "ServerMonitor \<Rightarrow>
   ((real list \<times> go_error option) \<times> (VirtualMemoryStat \<times> go_error option)) list \<Rightarrow>
   ServerMonitor" where
  "startRealTimeAlert m [] = m"
| "startRealTimeAlert m (sample # samples) =
     startRealTimeAlert (realTimeAlert_tick m sample) samples"

text \<open>
  The words of the specification. A transition of a metric is read off the flags before
  and after a step; the notifications of a step are the texts it added to the outbox.
\<close>

datatype Transition = NoTransition | Fired | Cleared

definition transition :: "string \<Rightarrow> ServerMonitor \<Rightarrow> ServerMonitor \<Rightarrow> Transition" where
  "transition key m m' =
     (if \<not> alertSent_get m key \<and> alertSent_get m' key then Fired
      else if alertSent_get m key \<and> \<not> alertSent_get m' key then Cleared
      else NoTransition)"

definition notifications :: "ServerMonitor \<Rightarrow> ServerMonitor \<Rightarrow> string list" where
  "notifications m m' = drop (length (outbox m)) (outbox m')"

section \<open>Time\<close>

text \<open>
  An instant (\<^verbatim>\<open>time.Time\<close>) is the number of nanoseconds since
  1970-01-01T00:00:00Z, a duration is a number of nanoseconds. A zone is its offset
  from UTC in seconds: \<^verbatim>\<open>time.FixedZone("CST", 8*3600)\<close> is \<open>cst\<close>. The
  calendar is the proleptic Gregorian one of package \<^verbatim>\<open>time\<close>.
\<close>

type_synonym instant = int

definition cst :: int where
  "cst = 8 * 3600"

definition Second :: int where "Second = 1000000000"
definition Minute :: int where "Minute = 60 * Second"
definition Hour :: int where "Hour = 60 * Minute"

definition is_leap :: "int \<Rightarrow> bool" where
  "is_leap y = (y mod 4 = 0 \<and> (y mod 100 \<noteq> 0 \<or> y mod 400 = 0))"

text \<open>The days from 0001-01-01 to the first of January of a year.\<close>

definition days_before_year :: "int \<Rightarrow> int" where
  "days_before_year y = 365 * (y - 1) + (y - 1) div 4 - (y - 1) div 100 + (y - 1) div 400"

text \<open>The days of a year before the first of a month, 1 to 12.\<close>

definition days_before_month :: "bool \<Rightarrow> int \<Rightarrow> int" where
  "days_before_month leap mo =
     [0, 31, 59, 90, 120, 151, 181, 212, 243, 273, 304, 334] ! nat (mo - 1) +
     (if leap \<and> 2 < mo then 1 else 0)"

definition unix_epoch_days :: int where
  "unix_epoch_days = 719162"

text \<open>
  \<^verbatim>\<open>time.Date\<close>: the instant of a civil date and clock time in a zone. Months
  outside 1 to 12 carry into the year; days and clock fields out of range carry on
  their own, since the instant is linear in them.
\<close>

definition days_from_civil :: "int \<Rightarrow> int \<Rightarrow> int \<Rightarrow> int" where
  "days_from_civil y mo d =
     (let y' = y + (mo - 1) div 12; mo' = (mo - 1) mod 12 + 1
      in days_before_year y' + days_before_month (is_leap y') mo' + (d - 1) - unix_epoch_days)"

definition go_Date :: "int \<Rightarrow> int \<Rightarrow> int \<Rightarrow> int \<Rightarrow> int \<Rightarrow> int \<Rightarrow> int \<Rightarrow> int \<Rightarrow> instant" where
  "go_Date y mo d h mi s ns off =
     (days_from_civil y mo d * 86400 + h * 3600 + mi * 60 + s - off) * Second + ns"

text \<open>
  The year and the day of the year (from 0) of a day counted from 0001-01-01: cycles
  of 400, 100, 4 and 1 years.
\<close>

definition year_of_days :: "int \<Rightarrow> int \<times> int" where
  "year_of_days n =
     (let a = n div 146097; r = n mod 146097;
          b = min 3 (r div 36524); r2 = r - b * 36524;
          c = r2 div 1461; r3 = r2 mod 1461;
          e = min 3 (r3 div 365); yday = r3 - e * 365
      in (400 * a + 100 * b + 4 * c + e + 1, yday))"

definition month_of_yday :: "bool \<Rightarrow> int \<Rightarrow> int" where
  "month_of_yday leap yday =
     (if yday < days_before_month leap 2 then 1
      else if yday < days_before_month leap 3 then 2
      else if yday < days_before_month leap 4 then 3
      else if yday < days_before_month leap 5 then 4
      else if yday < days_before_month leap 6 then 5
      else if yday < days_before_month leap 7 then 6
      else if yday < days_before_month leap 8 then 7
      else if yday < days_before_month leap 9 then 8
      else if yday < days_before_month leap 10 then 9
      else if yday < days_before_month leap 11 then 10
      else if yday < days_before_month leap 12 then 11
      else 12)"

text \<open>The civil date of a day counted from 1970-01-01.\<close>

definition civil_of_days :: "int \<Rightarrow> int \<times> int \<times> int" where
  "civil_of_days z =
     (case year_of_days (z + unix_epoch_days) of (y, yday) \<Rightarrow>
        let mo = month_of_yday (is_leap y) yday
        in (y, mo, yday - days_before_month (is_leap y) mo + 1))"

text \<open>
  The fields of an instant in a zone: the seconds since the epoch on the zone's clock,
  rounded down, split into days and seconds of the day.
\<close>

definition zone_seconds :: "instant \<Rightarrow> int \<Rightarrow> int" where
  "zone_seconds t off = t div Second + off"

definition go_civil :: "instant \<Rightarrow> int \<Rightarrow> int \<times> int \<times> int" where
  "go_civil t off = civil_of_days (zone_seconds t off div 86400)"

definition go_Year :: "instant \<Rightarrow> int \<Rightarrow> int" where
  "go_Year t off = fst (go_civil t off)"

definition go_Month :: "instant \<Rightarrow> int \<Rightarrow> int" where
  "go_Month t off = fst (snd (go_civil t off))"

definition go_Day :: "instant \<Rightarrow> int \<Rightarrow> int" where
  "go_Day t off = snd (snd (go_civil t off))"

definition go_Hour :: "instant \<Rightarrow> int \<Rightarrow> int" where
  "go_Hour t off = (zone_seconds t off mod 86400) div 3600"

definition go_Minute :: "instant \<Rightarrow> int \<Rightarrow> int" where
  "go_Minute t off = (zone_seconds t off mod 3600) div 60"

definition go_Second :: "instant \<Rightarrow> int \<Rightarrow> int" where
  "go_Second t off = zone_seconds t off mod 60"

text \<open>\<^verbatim>\<open>t.Format("2006-01-02 15:04:05")\<close> in a zone.\<close>

definition pad_int :: "nat \<Rightarrow> int \<Rightarrow> string" where
  "pad_int w i = (if i < 0 then ''-'' @ pad_nat w (nat (- i)) else pad_nat w (nat i))"

definition Format_datetime :: "instant \<Rightarrow> int \<Rightarrow> string" where
  "Format_datetime t off =
     pad_int 4 (go_Year t off) @ ''-'' @ pad_int 2 (go_Month t off) @ ''-'' @
     pad_int 2 (go_Day t off) @ '' '' @ pad_int 2 (go_Hour t off) @ '':'' @
     pad_int 2 (go_Minute t off) @ '':'' @ pad_int 2 (go_Second t off)"

text \<open>
  \<^verbatim>\<open>time.Parse("15:04", s)\<close>: an hour of one or two digits (two are taken
  when the second byte is a digit), a colon, a minute of two digits, and nothing
  more; the hour is below 24 and the minute below 60. The result is
  \<^const>\<open>None\<close> for the error, and the hour and the minute otherwise.
\<close>

definition is_digit :: "char \<Rightarrow> bool" where
  "is_digit ch = (48 \<le> (of_char ch :: nat) \<and> (of_char ch :: nat) \<le> 57)"

definition digit_val :: "char \<Rightarrow> int" where
  "digit_val ch = int (of_char ch) - 48"

definition parse_hour :: "string \<Rightarrow> (int \<times> string) option" where
  "parse_hour s =
     (case s of
        [] \<Rightarrow> None
      | c1 # r1 \<Rightarrow>
          if \<not> is_digit c1 then None
          else (case r1 of
                  [] \<Rightarrow> Some (digit_val c1, r1)
                | c2 # r2 \<Rightarrow>
                    if is_digit c2 then Some (digit_val c1 * 10 + digit_val c2, r2)
                    else Some (digit_val c1, r1)))"

definition parse_minute :: "string \<Rightarrow> (int \<times> string) option" where
  "parse_minute s =
     (case s of
        c1 # c2 # r \<Rightarrow>
          if is_digit c1 \<and> is_digit c2 then Some (digit_val c1 * 10 + digit_val c2, r)
          else None
      | _ \<Rightarrow> None)"

definition time_Parse_1504 :: "string \<Rightarrow> (int \<times> int) option" where
  "time_Parse_1504 s =
     (case parse_hour s of
        None \<Rightarrow> None
      | Some (h, r) \<Rightarrow>
          (case r of
             [] \<Rightarrow> None
           | c # r' \<Rightarrow>
               if c \<noteq> CHR '':'' then None
               else (case parse_minute r' of
                       None \<Rightarrow> None
                     | Some (mi, rest) \<Rightarrow>
                         if rest \<noteq> [] \<or> 24 \<le> h \<or> 60 \<le> mi then None
                         else Some (h, mi))))"

section \<open>The scheduler\<close>

text \<open>
  One round of the loop of \<^verbatim>\<open>startScheduledReport\<close> (main.go, lines 227-264),
  up to the sleep: from the current instant and the configured report time, the instant
  of the next report. \<^const>\<open>None\<close> is the parse error, after which the loop sleeps
  a minute and starts over. \<^verbatim>\<open>beijingTime.After(targetTime)\<close> compares the
  instants.
\<close>

definition next_report :: "instant \<Rightarrow> string \<Rightarrow> instant option" where
  "next_report now report_time =
     (let beijingTime = now in
      case time_Parse_1504 report_time of
        None \<Rightarrow> None
      | Some (hour, minute) \<Rightarrow>
          let targetTime =
                go_Date (go_Year beijingTime cst) (go_Month beijingTime cst)
                  (go_Day beijingTime cst) hour minute 0 0 cst
          in Some (if beijingTime > targetTime then targetTime + 24 * Hour else targetTime))"

definition waitDuration :: "instant \<Rightarrow> instant \<Rightarrow> int" where
  "waitDuration now targetTime = targetTime - now"

text \<open>
  The words of the specification: the instant at which the civil day of an instant
  starts in a zone, so that `today's HH:MM:00' is that instant plus the clock time.
\<close>

definition day_start :: "instant \<Rightarrow> int \<Rightarrow> instant" where
  "day_start t off = (zone_seconds t off div 86400 * 86400 - off) * Second"

definition today_at :: "instant \<Rightarrow> int \<Rightarrow> int \<Rightarrow> instant" where
  "today_at now h mi = day_start now cst + (h * 3600 + mi * 60) * Second"

section \<open>Uptime formatting\<close>

text \<open>
  \<^verbatim>\<open>Duration.Hours\<close> and \<^verbatim>\<open>Duration.Minutes\<close> of package
  \<^verbatim>\<open>time\<close>: the whole hours (minutes) plus the rest as a fraction. The sum is
  taken exactly; its rounding to a \<^verbatim>\<open>float64\<close> is not modelled.
\<close>

definition Duration_Hours :: "int \<Rightarrow> real" where
  "Duration_Hours d =
     of_int (go_int_div d Hour) + of_int (go_int_rem d Hour) / (60 * 60 * 1000000000)"

definition Duration_Minutes :: "int \<Rightarrow> real" where
  "Duration_Minutes d =
     of_int (go_int_div d Minute) + of_int (go_int_rem d Minute) / (60 * 1000000000)"

definition str_days :: string where
  "str_days = [CHR 0xE5, CHR 0xA4, CHR 0xA9]"

definition str_hours :: string where
  "str_hours = [CHR 0xE5, CHR 0xB0, CHR 0x8F, CHR 0xE6, CHR 0x97, CHR 0xB6]"

definition str_minutes :: string where
  "str_minutes = [CHR 0xE5, CHR 0x88, CHR 0x86, CHR 0xE9, CHR 0x92, CHR 0x9F]"

text \<open>
  \<^verbatim>\<open>formatUptime\<close> (main.go, lines 455-468). The uptime is a
  \<^verbatim>\<open>uint64\<close>; its conversion to a \<^verbatim>\<open>time.Duration\<close>, an
  \<^verbatim>\<open>int64\<close>, wraps around, and so does the product with
  \<^verbatim>\<open>time.Second\<close>.
\<close>

definition formatUptime :: "nat \<Rightarrow> string" where
  "formatUptime uptime =
     (let duration = go_int_mul (int64_wrap (int uptime)) Second;
          days = go_int_div (go_int_of_float (Duration_Hours duration)) 24;
          hours = go_int_rem (go_int_of_float (Duration_Hours duration)) 24;
          minutes = go_int_rem (go_int_of_float (Duration_Minutes duration)) 60
      in if days > 0 then
           Sprintf_d days @ str_days @ Sprintf_d hours @ str_hours @
           Sprintf_d minutes @ str_minutes
         else if hours > 0 then
           Sprintf_d hours @ str_hours @ Sprintf_d minutes @ str_minutes
         else Sprintf_d minutes @ str_minutes)"

section \<open>Loading the configuration\<close>

text \<open>
  \<^verbatim>\<open>strconv.ParseInt(s, 10, 64)\<close>: an optional sign, then one or more
  decimal digits, and a value in the range of an \<^verbatim>\<open>int64\<close>; \<^const>\<open>None\<close>
  is the error. \<^verbatim>\<open>strconv.Atoi\<close> parses a Go \<^verbatim>\<open>int\<close>, of 64 bits, the
  same way.
\<close>

fun parse_digits :: "nat \<Rightarrow> string \<Rightarrow> nat option" where
  "parse_digits acc [] = Some acc"
| "parse_digits acc (c # s) =
     (if is_digit c then parse_digits (acc * 10 + nat (digit_val c)) s else None)"

definition strconv_ParseUint :: "string \<Rightarrow> nat option" where
  "strconv_ParseUint s = (if s = [] then None else parse_digits 0 s)"

definition strconv_ParseInt :: "string \<Rightarrow> int option" where
  "strconv_ParseInt s =
     (case s of
        [] \<Rightarrow> None
      | c # r \<Rightarrow>
          let neg = (c = CHR ''-'');
              digits = (if c = CHR ''+'' \<or> c = CHR ''-'' then r else s)
          in (case strconv_ParseUint digits of
                None \<Rightarrow> None
              | Some un \<Rightarrow>
                  if \<not> neg \<and> 2 ^ 63 \<le> un then None
                  else if neg \<and> 2 ^ 63 < un then None
                  else Some (if neg then - int un else int un)))"

definition strconv_Atoi :: "string \<Rightarrow> int option" where
  "strconv_Atoi s = strconv_ParseInt s"

text \<open>
  The file \<^verbatim>\<open>config.json\<close>, as \<^verbatim>\<open>json.Unmarshal\<close> reads it into a
  \<^verbatim>\<open>Config\<close>: a field is \<^const>\<open>Some\<close> value when the document holds a
  value of the field's type under the field's key, and \<^const>\<open>None\<close> when the key
  is missing, \<^verbatim>\<open>null\<close> or of another type, or the document is not JSON. The
  decoder writes the fields it can decode and leaves the others as they are; its error
  is logged and has no other effect.
\<close>

record config_json =
  json_bot_token :: "string option"
  json_chat_id :: "int option"
  json_report_time :: "string option"
  json_custom_message :: "string option"
  json_cpu_threshold :: "int option"
  json_mem_threshold :: "int option"

definition json_Unmarshal :: "config_json \<Rightarrow> Config \<Rightarrow> Config" where
  "json_Unmarshal j c =
     \<lparr>BotToken = (case json_bot_token j of None \<Rightarrow> BotToken c | Some v \<Rightarrow> v),
      ChatID = (case json_chat_id j of None \<Rightarrow> ChatID c | Some v \<Rightarrow> v),
      ReportTime = (case json_report_time j of None \<Rightarrow> ReportTime c | Some v \<Rightarrow> v),
      CustomMessage = (case json_custom_message j of None \<Rightarrow> CustomMessage c | Some v \<Rightarrow> v),
      CPUThreshold = (case json_cpu_threshold j of None \<Rightarrow> CPUThreshold c | Some v \<Rightarrow> v),
      MemThreshold = (case json_mem_threshold j of None \<Rightarrow> MemThreshold c | Some v \<Rightarrow> v)\<rparr>"

definition default_custom_message :: string where
  "default_custom_message =
     [CHR 0xF0, CHR 0x9F, CHR 0x96, CHR 0xA5, CHR 0xEF, CHR 0xB8, CHR 0x8F] @ '' '' @
     [CHR 0xE6, CHR 0x9C, CHR 0x8D, CHR 0xE5, CHR 0x8A, CHR 0xA1, CHR 0xE5, CHR 0x99, CHR 0xA8,
      CHR 0xE7, CHR 0x8A, CHR 0xB6, CHR 0xE6, CHR 0x80, CHR 0x81, CHR 0xE6, CHR 0x8A, CHR 0xA5,
      CHR 0xE5, CHR 0x91, CHR 0x8A]"

definition default_config :: Config where
  "default_config =
     \<lparr>BotToken = '''', ChatID = 0, ReportTime = ''15:00'',
      CustomMessage = default_custom_message, CPUThreshold = 80, MemThreshold = 80\<rparr>"

datatype config_error = MissingBotToken | MissingChatID

text \<open>
  \<^verbatim>\<open>loadConfig\<close> (main.go, lines 74-124). The environment is
  \<^verbatim>\<open>os.Getenv\<close>, which gives the empty string for a variable that is not set;
  the file is \<^const>\<open>None\<close> when \<^verbatim>\<open>os.ReadFile\<close> fails.
\<close>

definition loadConfig :: "(string \<Rightarrow> string) \<Rightarrow> config_json option \<Rightarrow> config_error + Config" where
  "loadConfig getenv file =
     (let c0 = default_config;
          c1 = (if getenv ''BOT_TOKEN'' \<noteq> '''' then c0\<lparr>BotToken := getenv ''BOT_TOKEN''\<rparr>
                else c0);
          c2 = (if getenv ''CHAT_ID'' \<noteq> '''' then
                  (case strconv_ParseInt (getenv ''CHAT_ID'') of
                     Some chat_id \<Rightarrow> c1\<lparr>ChatID := chat_id\<rparr>
                   | None \<Rightarrow> c1)
                else c1);
          c3 = (if getenv ''REPORT_TIME'' \<noteq> '''' then
                  c2\<lparr>ReportTime := getenv ''REPORT_TIME''\<rparr>
                else c2);
          c4 = (if getenv ''CUSTOM_MESSAGE'' \<noteq> '''' then
                  c3\<lparr>CustomMessage := getenv ''CUSTOM_MESSAGE''\<rparr>
                else c3);
          c5 = (if getenv ''CPU_THRESHOLD'' \<noteq> '''' then
                  (case strconv_Atoi (getenv ''CPU_THRESHOLD'') of
                     Some threshold \<Rightarrow> c4\<lparr>CPUThreshold := threshold\<rparr>
                   | None \<Rightarrow> c4)
                else c4);
          c6 = (if getenv ''MEM_THRESHOLD'' \<noteq> '''' then
                  (case strconv_Atoi (getenv ''MEM_THRESHOLD'') of
                     Some threshold \<Rightarrow> c5\<lparr>MemThreshold := threshold\<rparr>
                   | None \<Rightarrow> c5)
                else c5);
          c7 = (case file of None \<Rightarrow> c6 | Some j \<Rightarrow> json_Unmarshal j c6)
      in if BotToken c7 = '''' then Inl MissingBotToken
         else if ChatID c7 = 0 then Inl MissingChatID
         else Inr c7)"

text \<open>
  The words of the specification: the value an environment variable gives to a field,
  if any.
\<close>

definition env_string :: "(string \<Rightarrow> string) \<Rightarrow> string \<Rightarrow> string option" where
  "env_string getenv name = (if getenv name = '''' then None else Some (getenv name))"

definition env_int :: "(string \<Rightarrow> string) \<Rightarrow> string \<Rightarrow> int option" where
  "env_int getenv name = (if getenv name = '''' then None else strconv_ParseInt (getenv name))"

text \<open>Precedence: the first source that holds a value, then the default.\<close>

definition first_of :: "'a option \<Rightarrow> 'a option \<Rightarrow> 'a \<Rightarrow> 'a" where
  "first_of a b d = (case a of Some v \<Rightarrow> v | None \<Rightarrow> (case b of Some v \<Rightarrow> v | None \<Rightarrow> d))"

definition merged_config :: "(string \<Rightarrow> string) \<Rightarrow> config_json option \<Rightarrow> Config" where
  "merged_config getenv file =
     \<lparr>BotToken =
        first_of (Option.bind file json_bot_token) (env_string getenv ''BOT_TOKEN'') '''',
      ChatID =
        first_of (Option.bind file json_chat_id) (env_int getenv ''CHAT_ID'') 0,
      ReportTime =
        first_of (Option.bind file json_report_time) (env_string getenv ''REPORT_TIME'')
          ''15:00'',
      CustomMessage =
        first_of (Option.bind file json_custom_message) (env_string getenv ''CUSTOM_MESSAGE'')
          default_custom_message,
      CPUThreshold =
        first_of (Option.bind file json_cpu_threshold) (env_int getenv ''CPU_THRESHOLD'') 80,
      MemThreshold =
        first_of (Option.bind file json_mem_threshold) (env_int getenv ''MEM_THRESHOLD'') 80\<rparr>"

section \<open>The other retrieval helpers\<close>

record UsageStat =
  disk_Total :: nat
  disk_Used :: nat
  disk_UsedPercent :: real

definition UsageStat_zero :: UsageStat where
  "UsageStat_zero = \<lparr>disk_Total = 0, disk_Used = 0, disk_UsedPercent = 0\<rparr>"

text \<open>\<^verbatim>\<open>getDiskInfo\<close> (main.go, lines 352-361).\<close>

definition getDiskInfo :: "UsageStat \<times> go_error option \<Rightarrow> UsageStat" where
  "getDiskInfo r =
     (case r of (diskInfo, err) \<Rightarrow> if err \<noteq> None then UsageStat_zero else diskInfo)"

record IOCountersStat =
  BytesSent :: nat
  BytesRecv :: nat

record NetworkInfo =
  SentGB :: real
  RecvGB :: real

text \<open>
  \<^verbatim>\<open>getNetworkInfo\<close> (main.go, lines 370-383). The conversion of a byte
  count to a \<^verbatim>\<open>float64\<close> and the divisions are taken exactly.
\<close>

definition getNetworkInfo :: "IOCountersStat list \<times> go_error option \<Rightarrow> NetworkInfo" where
  "getNetworkInfo r =
     (case r of (stats, err) \<Rightarrow>
        if err \<noteq> None \<or> length stats = 0 then \<lparr>SentGB = 0, RecvGB = 0\<rparr>
        else \<lparr>SentGB = real (BytesSent (stats ! 0)) / 1024 / 1024 / 1024,
              RecvGB = real (BytesRecv (stats ! 0)) / 1024 / 1024 / 1024\<rparr>)"

record InfoStat =
  host_Platform :: string
  host_Uptime :: nat

definition InfoStat_zero :: InfoStat where
  "InfoStat_zero = \<lparr>host_Platform = '''', host_Uptime = 0\<rparr>"

text \<open>\<^verbatim>\<open>getHostInfo\<close> (main.go, lines 386-395).\<close>

definition getHostInfo :: "InfoStat \<times> go_error option \<Rightarrow> InfoStat" where
  "getHostInfo r =
     (case r of (hostInfo, err) \<Rightarrow> if err \<noteq> None then InfoStat_zero else hostInfo)"

section \<open>Geolocation\<close>

text \<open>The struct \<^verbatim>\<open>LocationInfo\<close> (main.go, lines 50-54).\<close>

record LocationInfo =
  IP :: string
  Location :: string
  Country :: string

text \<open>
  The outcome of the request to the trace service: \<^verbatim>\<open>client.Get\<close> fails, or
  reading the body fails, or the body is read.
\<close>

datatype http_result = GetFailed go_error | ReadFailed go_error | Body string

text \<open>The placeholder for what is not known.\<close>

definition unknown :: string where
  "unknown = [CHR 0xE6, CHR 0x9C, CHR 0xAA, CHR 0xE7, CHR 0x9F, CHR 0xA5]"

text \<open>The body of the loop over the lines of the trace (main.go, lines 414-422).\<close>

definition trace_line :: "LocationInfo \<Rightarrow> string \<Rightarrow> LocationInfo" where
  "trace_line info line =
     (if strings_HasPrefix line ''ip='' then info\<lparr>IP := strings_TrimPrefix line ''ip=''\<rparr>
      else if strings_HasPrefix line ''loc='' then
        info\<lparr>Location := strings_TrimPrefix line ''loc=''\<rparr>
      else if strings_HasPrefix line ''colo='' then
        info\<lparr>Country := strings_TrimPrefix line ''colo=''\<rparr>
      else info)"

text \<open>\<^verbatim>\<open>getLocationInfo\<close> (main.go, lines 398-432).\<close>

definition getLocationInfo :: "http_result \<Rightarrow> LocationInfo" where
  "getLocationInfo resp =
     (case resp of
        GetFailed err \<Rightarrow> \<lparr>IP = unknown, Location = unknown, Country = ''''\<rparr>
      | ReadFailed err \<Rightarrow> \<lparr>IP = unknown, Location = unknown, Country = ''''\<rparr>
      | Body body \<Rightarrow>
          let lines = strings_Split body (CHR 0x0A);
              info = foldl trace_line \<lparr>IP = '''', Location = '''', Country = ''''\<rparr> lines;
              info1 = (if IP info = '''' then info\<lparr>IP := unknown\<rparr> else info);
              info2 = (if Location info1 = '''' then info1\<lparr>Location := unknown\<rparr> else info1)
          in info2)"

section \<open>The report\<close>

text \<open>
  What one run of \<^verbatim>\<open>generateReport\<close> gets from outside the program: the
  answers of the trace service and of the metric library, and the clock.
\<close>

record probe =
  p_trace :: http_result
  p_now :: instant
  p_cpu :: "real list \<times> go_error option"
  p_mem :: "VirtualMemoryStat \<times> go_error option"
  p_disk :: "UsageStat \<times> go_error option"
  p_net :: "IOCountersStat list \<times> go_error option"
  p_host :: "InfoStat \<times> go_error option"

definition icon_ok :: string where
  "icon_ok = [CHR 0xF0, CHR 0x9F, CHR 0x92, CHR 0x9A]"

definition icon_alert :: string where
  "icon_alert = [CHR 0xF0, CHR 0x9F, CHR 0x94, CHR 0xB4]"

text \<open>
  \<^verbatim>\<open>generateReport\<close> (main.go, lines 268-325). The result is \<^const>\<open>None\<close>
  when the Go function would panic, which only \<^const>\<open>maskIP\<close> could make it do.
  The conversions of byte counts to \<^verbatim>\<open>float64\<close> and their divisions are
  taken exactly.
\<close>

definition generateReport :: "ServerMonitor \<Rightarrow> probe \<Rightarrow> string option" where
  "generateReport m p =
     (let location = getLocationInfo (p_trace p) in
      case maskIP (IP location) of
        None \<Rightarrow> None
      | Some masked \<Rightarrow>
          let line_location =
                [CHR 0xF0, CHR 0x9F, CHR 0x8C, CHR 0x8D] @ '' *'' @
                [CHR 0xE6, CHR 0x9C, CHR 0x8D, CHR 0xE5, CHR 0x8A, CHR 0xA1, CHR 0xE5, CHR 0x99,
                 CHR 0xA8, CHR 0xE4, CHR 0xBD, CHR 0x8D, CHR 0xE7, CHR 0xBD, CHR 0xAE] @ ''*: '' @
                Location location @ '' ('' @ masked @ '')'' @ [CHR 0x0A];
              line_time =
                [CHR 0xF0, CHR 0x9F, CHR 0x95, CHR 0x90] @ '' *'' @
                [CHR 0xE6, CHR 0x9B, CHR 0xB4, CHR 0xE6, CHR 0x96, CHR 0xB0, CHR 0xE6, CHR 0x97,
                 CHR 0xB6, CHR 0xE9, CHR 0x97, CHR 0xB4] @ ''*: '' @
                Format_datetime (p_now p) cst @ [CHR 0x0A, CHR 0x0A];
              cpuPercent = getCPUUsage (p_cpu p);
              cpuIcon = (if cpuPercent > float64_of_int (CPUThreshold (config m))
                         then icon_alert else icon_ok);
              line_cpu =
                cpuIcon @ '' *CPU '' @
                [CHR 0xE4, CHR 0xBD, CHR 0xBF, CHR 0xE7, CHR 0x94, CHR 0xA8, CHR 0xE7, CHR 0x8E,
                 CHR 0x87] @ ''*: '' @ Sprintf_f 1 cpuPercent @ ''%'' @ [CHR 0x0A];
              memInfo = getMemoryInfo (p_mem p);
              memIcon = (if mem_UsedPercent memInfo > float64_of_int (MemThreshold (config m))
                         then icon_alert else icon_ok);
              line_mem =
                memIcon @ '' *'' @
                [CHR 0xE5, CHR 0x86, CHR 0x85, CHR 0xE5, CHR 0xAD, CHR 0x98, CHR 0xE4, CHR 0xBD,
                 CHR 0xBF, CHR 0xE7, CHR 0x94, CHR 0xA8] @ ''*: '' @
                Sprintf_f 1 (real (mem_Used memInfo) / 1024 / 1024) @ ''MB/'' @
                Sprintf_f 1 (real (mem_Total memInfo) / 1024 / 1024) @ ''MB ('' @
                Sprintf_f 1 (mem_UsedPercent memInfo) @ ''%'' @ '')'' @ [CHR 0x0A];
              diskInfo = getDiskInfo (p_disk p);
              diskIcon = (if disk_UsedPercent diskInfo > 80 then icon_alert else icon_ok);
              line_disk =
                diskIcon @ '' *'' @
                [CHR 0xE7, CHR 0xA3, CHR 0x81, CHR 0xE7, CHR 0x9B, CHR 0x98, CHR 0xE4, CHR 0xBD,
                 CHR 0xBF, CHR 0xE7, CHR 0x94, CHR 0xA8] @ ''*: '' @
                Sprintf_f 1 (real (disk_Used diskInfo) / 1024 / 1024 / 1024) @ ''GB/'' @
                Sprintf_f 1 (real (disk_Total diskInfo) / 1024 / 1024 / 1024) @ ''GB ('' @
                Sprintf_f 1 (disk_UsedPercent diskInfo) @ ''%'' @ '')'' @ [CHR 0x0A];
              netInfo = getNetworkInfo (p_net p);
              line_net =
                [CHR 0xF0, CHR 0x9F, CHR 0x93, CHR 0x8A] @ '' *'' @
                [CHR 0xE7, CHR 0xBD, CHR 0x91, CHR 0xE7, CHR 0xBB, CHR 0x9C, CHR 0xE6, CHR 0xB5,
                 CHR 0x81, CHR 0xE9, CHR 0x87, CHR 0x8F] @ ''*: '' @
                [CHR 0xE2, CHR 0x86, CHR 0x93] @ Sprintf_f 2 (RecvGB netInfo) @ ''GB '' @
                [CHR 0xE2, CHR 0x86, CHR 0x91] @ Sprintf_f 2 (SentGB netInfo) @ ''GB'' @
                [CHR 0x0A];
              hostInfo = getHostInfo (p_host p);
              line_system =
                [CHR 0x0A, CHR 0xF0, CHR 0x9F, CHR 0x96, CHR 0xA5, CHR 0xEF, CHR 0xB8, CHR 0x8F] @
                '' *'' @
                [CHR 0xE7, CHR 0xB3, CHR 0xBB, CHR 0xE7, CHR 0xBB, CHR 0x9F, CHR 0xE4, CHR 0xBF,
                 CHR 0xA1, CHR 0xE6, CHR 0x81, CHR 0xAF] @ ''*:'' @ [CHR 0x0A];
              line_platform =
                [CHR 0xE2, CHR 0x80, CHR 0xA2] @ '' '' @
                [CHR 0xE7, CHR 0xB3, CHR 0xBB, CHR 0xE7, CHR 0xBB, CHR 0x9F] @ '': '' @
                host_Platform hostInfo @ [CHR 0x0A];
              line_uptime =
                [CHR 0xE2, CHR 0x80, CHR 0xA2] @ '' '' @
                [CHR 0xE8, CHR 0xBF, CHR 0x90, CHR 0xE8, CHR 0xA1, CHR 0x8C, CHR 0xE6, CHR 0x97,
                 CHR 0xB6, CHR 0xE9, CHR 0x97, CHR 0xB4] @ '': '' @
                formatUptime (host_Uptime hostInfo) @ [CHR 0x0A]
          in Some (line_location @ line_time @ line_cpu @ line_mem @ line_disk @ line_net @
                   line_system @ line_platform @ line_uptime @
                   [CHR 0x0A] @ CustomMessage (config m) @ [CHR 0x0A]))"

section \<open>The alert pass after the report\<close>

definition cpu_high_text :: "real \<Rightarrow> string" where
  "cpu_high_text cpuPercent =
     [CHR 0xF0, CHR 0x9F, CHR 0x94, CHR 0xB4] @ '' CPU '' @
     [CHR 0xE4, CHR 0xBD, CHR 0xBF, CHR 0xE7, CHR 0x94, CHR 0xA8, CHR 0xE7, CHR 0x8E, CHR 0x87,
      CHR 0xE8, CHR 0xBF, CHR 0x87, CHR 0xE9, CHR 0xAB, CHR 0x98] @ '': '' @
     Sprintf_f 1 cpuPercent @ ''%''"

definition mem_high_text :: "real \<Rightarrow> string" where
  "mem_high_text usedPercent =
     [CHR 0xF0, CHR 0x9F, CHR 0x94, CHR 0xB4] @ '' '' @
     [CHR 0xE5, CHR 0x86, CHR 0x85, CHR 0xE5, CHR 0xAD, CHR 0x98, CHR 0xE4, CHR 0xBD, CHR 0xBF,
      CHR 0xE7, CHR 0x94, CHR 0xA8, CHR 0xE7, CHR 0x8E, CHR 0x87, CHR 0xE8, CHR 0xBF, CHR 0x87,
      CHR 0xE9, CHR 0xAB, CHR 0x98] @ '': '' @
     Sprintf_f 1 usedPercent @ ''%''"

definition alert_notice :: "string list \<Rightarrow> instant \<Rightarrow> string" where
  "alert_notice alerts now =
     [CHR 0xE2, CHR 0x9A, CHR 0xA0, CHR 0xEF, CHR 0xB8, CHR 0x8F] @ '' *'' @
     [CHR 0xE6, CHR 0x9C, CHR 0x8D, CHR 0xE5, CHR 0x8A, CHR 0xA1, CHR 0xE5, CHR 0x99, CHR 0xA8,
      CHR 0xE5, CHR 0x91, CHR 0x8A, CHR 0xE8, CHR 0xAD, CHR 0xA6, CHR 0xE9, CHR 0x80, CHR 0x9A,
      CHR 0xE7, CHR 0x9F, CHR 0xA5] @ ''*'' @ [CHR 0x0A, CHR 0x0A] @
     strings_Join alerts [CHR 0x0A] @
     [CHR 0x0A, CHR 0x0A, CHR 0xE6, CHR 0x97, CHR 0xB6, CHR 0xE9, CHR 0x97, CHR 0xB4] @ '': '' @
     Format_datetime now cst"

text \<open>
  What one run of \<^verbatim>\<open>checkAndSendAlert\<close> gets from outside the program: the
  two readings and the clock.
\<close>

record alert_probe =
  a_cpu :: "real list \<times> go_error option"
  a_mem :: "VirtualMemoryStat \<times> go_error option"
  a_now :: instant

text \<open>\<^verbatim>\<open>checkAndSendAlert\<close> (main.go, lines 471-493).\<close>

definition checkAndSendAlert :: "ServerMonitor \<Rightarrow> alert_probe \<Rightarrow> ServerMonitor" where
  "checkAndSendAlert m p =
     (let alerts0 = [];
          cpuPercent = getCPUUsage (a_cpu p);
          alerts1 = (if cpuPercent > float64_of_int (CPUThreshold (config m))
                     then alerts0 @ [cpu_high_text cpuPercent] else alerts0);
          memInfo = getMemoryInfo (a_mem p);
          alerts2 = (if mem_UsedPercent memInfo > float64_of_int (MemThreshold (config m))
                     then alerts1 @ [mem_high_text (mem_UsedPercent memInfo)] else alerts1)
      in if length alerts2 > 0 then sendMessage m (alert_notice alerts2 (a_now p)) else m)"

text \<open>
  The words of the specification: the lines for the metrics that are strictly above
  their configured thresholds.
\<close>

definition breaches :: "ServerMonitor \<Rightarrow> alert_probe \<Rightarrow> string list" where
  "breaches m p =
     (if real_of_int (CPUThreshold (config m)) < getCPUUsage (a_cpu p)
      then [cpu_high_text (getCPUUsage (a_cpu p))] else []) @
     (if real_of_int (MemThreshold (config m)) < mem_UsedPercent (getMemoryInfo (a_mem p))
      then [mem_high_text (mem_UsedPercent (getMemoryInfo (a_mem p)))] else [])"

text \<open>
  One round of the loop of \<^verbatim>\<open>startScheduledReport\<close> after the sleep (main.go,
  lines 258-263): the report is built and sent, then the alert pass runs.
  \<^const>\<open>None\<close> is a panic.
\<close>

definition scheduledReport_round ::
  "ServerMonitor \<Rightarrow> probe \<Rightarrow> alert_probe \<Rightarrow> ServerMonitor option" where
  "scheduledReport_round m p a =
     (case generateReport m p of
        None \<Rightarrow> None
      | Some report \<Rightarrow> Some (checkAndSendAlert (sendMessage m report) a))"

section \<open>Inputs of the examples\<close>

definition example_config :: Config where
  "example_config =
     \<lparr>BotToken = ''123456:token'', ChatID = 1001234567890, ReportTime = ''15:00'',
      CustomMessage = ''status'', CPUThreshold = 80, MemThreshold = 80\<rparr>"

text \<open>A monitor whose CPU alert is firing.\<close>

definition cpu_firing_monitor :: ServerMonitor where
  "cpu_firing_monitor = alertSent_set (NewServerMonitor example_config) ''cpu'' True"

text \<open>A configuration with the least CPU threshold a Go \<^verbatim>\<open>int\<close> can hold.\<close>

definition least_threshold_config :: Config where
  "least_threshold_config = example_config\<lparr>CPUThreshold := min_int64\<rparr>"

definition least_threshold_firing :: ServerMonitor where
  "least_threshold_firing =
     alertSent_set (NewServerMonitor least_threshold_config) ''cpu'' True"

text \<open>A sample of one tick: the CPU at 50 per cent, the memory at 40 per cent.\<close>

definition sample_50 ::
  "(real list \<times> go_error option) \<times> (VirtualMemoryStat \<times> go_error option)" where
  "sample_50 =
     (([50], None), (\<lparr>mem_Total = 1000, mem_Used = 400, mem_UsedPercent = 40\<rparr>, None))"

text \<open>A configuration with the CPU threshold at 5 per cent, and its alert firing.\<close>

definition low_threshold_config :: Config where
  "low_threshold_config = example_config\<lparr>CPUThreshold := 5\<rparr>"

definition low_threshold_firing :: ServerMonitor where
  "low_threshold_firing = alertSent_set (NewServerMonitor low_threshold_config) ''cpu'' True"

text \<open>
  An environment and a file that both set the report time: \<open>09:00\<close> in the
  variable, \<open>18:30\<close> in the file.
\<close>

definition example_env :: "string \<Rightarrow> string" where
  "example_env name =
     (if name = ''BOT_TOKEN'' then ''123456:token''
      else if name = ''CHAT_ID'' then ''-1001234567890''
      else if name = ''REPORT_TIME'' then ''09:00''
      else if name = ''CPU_THRESHOLD'' then ''90''
      else '''')"

definition example_file :: config_json where
  "example_file =
     \<lparr>json_bot_token = None, json_chat_id = None, json_report_time = Some ''18:30'',
      json_custom_message = None, json_cpu_threshold = None, json_mem_threshold = Some 70\<rparr>"

text \<open>A round in which every retrieval fails, at 2025-06-26T15:00:05+08:00.\<close>

definition failed_probe :: probe where
  "failed_probe =
     \<lparr>p_trace = GetFailed ''timeout'',
      p_now = 1750921205000000000,
      p_cpu = ([], Some ''timeout''),
      p_mem = (VirtualMemoryStat_zero, Some ''timeout''),
      p_disk = (UsageStat_zero, Some ''timeout''),
      p_net = ([], Some ''timeout''),
      p_host = (InfoStat_zero, Some ''timeout'')\<rparr>"

text \<open>An alert pass with the CPU at 85.5 per cent and the memory at 40 per cent.\<close>

definition cpu_high_probe :: alert_probe where
  "cpu_high_probe =
     \<lparr>a_cpu = ([85.5], None),
      a_mem = (\<lparr>mem_Total = 1000, mem_Used = 400, mem_UsedPercent = 40\<rparr>, None),
      a_now = 1750921205000000000\<rparr>"

text \<open>An alert pass with both readings at 40 per cent.\<close>

definition quiet_probe :: alert_probe where
  "quiet_probe =
     \<lparr>a_cpu = ([40], None),
      a_mem = (\<lparr>mem_Total = 1000, mem_Used = 400, mem_UsedPercent = 40\<rparr>, None),
      a_now = 1750921205000000000\<rparr>"

text \<open>An environment that sets the least CPU threshold.\<close>

definition least_threshold_env :: "string \<Rightarrow> string" where
  "least_threshold_env name =
     (if name = ''BOT_TOKEN'' then ''123456:token''
      else if name = ''CHAT_ID'' then ''1001234567890''
      else if name = ''CPU_THRESHOLD'' then ''-9223372036854775808''
      else '''')"

section \<open>Properties of the machine numbers\<close>

lemma int64_wrap_id: "is_int64 x \<Longrightarrow> int64_wrap x = x"
  by (simp add: int64_wrap_def is_int64_def)

lemma round_to_even_1: "round_to_even a 1 = a"
  by (simp add: round_to_even_def)

lemma round_to_even_lower: "0 < q \<Longrightarrow> (a div q) * q \<le> round_to_even a q"
  by (auto simp: round_to_even_def Let_def algebra_simps)

lemma int_div_lower: "0 < (q::int) \<Longrightarrow> c * q \<le> a \<Longrightarrow> c \<le> a div q"
  using zdiv_mono1 by fastforce

lemma bitlen_small: "a < 2 ^ 53 \<Longrightarrow> bitlen a \<le> 53"
  by (simp add: bitlen_le_iff_power)

text \<open>Integers of magnitude up to \<open>2^53\<close> convert exactly.\<close>

lemma float64_of_int_exact:
  assumes "\<bar>n\<bar> \<le> 2 ^ 53"
  shows "float64_of_int n = of_int n"
proof (cases "\<bar>n\<bar> < 2 ^ 53")
  case True
  then have "nat (bitlen \<bar>n\<bar> - 53) = 0"
    using bitlen_small [of "\<bar>n\<bar>"] by simp
  then have "sgn n * round_to_even \<bar>n\<bar> (2 ^ nat (bitlen \<bar>n\<bar> - 53)) = n"
    by (simp add: round_to_even_1 mult_sgn_abs)
  then show ?thesis
    by (simp only: float64_of_int_def Let_def)
next
  case False
  with assms have a: "\<bar>n\<bar> = 2 ^ 53" by simp
  have b: "bitlen \<bar>n\<bar> = 54"
    using bitlen_twopow_add_eq [of 0 53] a by simp
  have "round_to_even (2 ^ 53) 2 = 2 ^ 53"
    by (simp add: round_to_even_def Let_def)
  then have "sgn n * round_to_even \<bar>n\<bar> (2 ^ nat (bitlen \<bar>n\<bar> - 53)) = sgn n * \<bar>n\<bar>"
    using a b by simp
  then have "sgn n * round_to_even \<bar>n\<bar> (2 ^ nat (bitlen \<bar>n\<bar> - 53)) = n"
    by (simp add: mult_sgn_abs)
  then show ?thesis
    by (simp only: float64_of_int_def Let_def)
qed

text \<open>Larger integers convert to numbers of magnitude at least \<open>2^53\<close>.\<close>

lemma round_to_even_big:
  assumes "2 ^ 53 \<le> \<bar>n\<bar>"
  shows "2 ^ 53 \<le> round_to_even \<bar>n\<bar> (2 ^ nat (bitlen \<bar>n\<bar> - 53))"
proof -
  let ?a = "\<bar>n\<bar>"
  let ?k = "bitlen ?a"
  have pos: "0 < ?a" using assms by (simp add: order.strict_trans2 [of 0 "2^53"])
  from bitlen_bounds [OF pos] have lo: "2 ^ nat (?k - 1) \<le> ?a" and hi: "?a < 2 ^ nat ?k"
    by auto
  have k54: "54 \<le> ?k"
  proof (rule ccontr)
    assume "\<not> 54 \<le> ?k"
    then have "nat ?k \<le> 53" by simp
    then have "(2::int) ^ nat ?k \<le> 2 ^ 53" by (rule power_increasing) simp
    with hi assms show False by simp
  qed
  let ?q = "(2::int) ^ nat (?k - 53)"
  have split: "(2::int) ^ nat (?k - 1) = 2 ^ 52 * ?q"
  proof -
    have "nat (?k - 1) = 52 + nat (?k - 53)" using k54 by simp
    then show ?thesis by (simp only: power_add)
  qed
  have qpos: "0 < ?q" by simp
  have "2 ^ 52 * ?q \<le> ?a" using lo split by simp
  with qpos have "2 ^ 52 \<le> ?a div ?q" by (rule int_div_lower)
  then have "2 ^ 52 * ?q \<le> (?a div ?q) * ?q"
    using qpos by simp
  also have "\<dots> \<le> round_to_even ?a ?q"
    using qpos by (rule round_to_even_lower)
  finally have "2 ^ nat (?k - 1) \<le> round_to_even ?a ?q" using split by simp
  moreover have "(2::int) ^ 53 \<le> 2 ^ nat (?k - 1)"
    by (rule power_increasing) (use k54 in simp_all)
  ultimately show ?thesis by simp
qed

lemma float64_of_int_ge:
  assumes "2 ^ 53 \<le> n"
  shows "2 ^ 53 \<le> float64_of_int n"
proof -
  from assms have "0 < n" by (simp add: order.strict_trans2 [of 0 "2^53"])
  then have s: "sgn n = 1" and a: "\<bar>n\<bar> = n" by simp_all
  have "2 ^ 53 \<le> round_to_even \<bar>n\<bar> (2 ^ nat (bitlen \<bar>n\<bar> - 53))"
    using assms a by (intro round_to_even_big) simp
  then have "(2::real) ^ 53 \<le> of_int (round_to_even \<bar>n\<bar> (2 ^ nat (bitlen \<bar>n\<bar> - 53)))"
    by (metis of_int_le_iff of_int_numeral of_int_power)
  then show ?thesis
    by (simp add: float64_of_int_def Let_def s)
qed

lemma float64_of_int_le:
  assumes "n \<le> - (2 ^ 53)"
  shows "float64_of_int n \<le> - (2 ^ 53)"
proof -
  from assms have "n < 0" by (simp add: order.strict_trans1 [of n "- (2^53)" 0])
  then have s: "sgn n = - 1" and a: "\<bar>n\<bar> = - n" by simp_all
  have "2 ^ 53 \<le> round_to_even \<bar>n\<bar> (2 ^ nat (bitlen \<bar>n\<bar> - 53))"
    using assms a by (intro round_to_even_big) simp
  then have "(2::real) ^ 53 \<le> of_int (round_to_even \<bar>n\<bar> (2 ^ nat (bitlen \<bar>n\<bar> - 53)))"
    by (metis of_int_le_iff of_int_numeral of_int_power)
  then show ?thesis
    by (simp add: float64_of_int_def Let_def s)
qed

text \<open>
  So a value of magnitude below \<open>2^53\<close> (every percentage is one) compares with
  \<^verbatim>\<open>float64(n)\<close> as it compares with \<open>n\<close>, for every integer \<open>n\<close>.
\<close>

lemma float64_of_int_less_iff:
  assumes "\<bar>v\<bar> < 2 ^ 53"
  shows "float64_of_int n < v \<longleftrightarrow> of_int n < v"
proof -
  consider "\<bar>n\<bar> \<le> 2 ^ 53" | "2 ^ 53 < n" | "n < - (2 ^ 53)" by linarith
  then show ?thesis
  proof cases
    case 1
    then show ?thesis by (simp add: float64_of_int_exact)
  next
    case 2
    then have "(2::real) ^ 53 \<le> float64_of_int n" by (intro float64_of_int_ge) simp
    moreover from 2 have "(2::real) ^ 53 < of_int n"
      by (metis of_int_less_iff of_int_numeral of_int_power)
    ultimately show ?thesis using assms by auto
  next
    case 3
    then have "float64_of_int n \<le> - (2 ^ 53)" by (intro float64_of_int_le) simp
    moreover from 3 have "of_int n < - ((2::real) ^ 53)"
      by (metis of_int_less_iff of_int_minus of_int_numeral of_int_power)
    ultimately show ?thesis using assms by auto
  qed
qed

lemma float64_of_int_le_iff:
  assumes "\<bar>v\<bar> < 2 ^ 53"
  shows "v \<le> float64_of_int n \<longleftrightarrow> v \<le> of_int n"
  using float64_of_int_less_iff [OF assms, of n] by auto

text \<open>
  Above \<open>2^53\<close> the conversion rounds: \<open>2^53 + 3\<close> becomes \<open>2^53 + 4\<close>, so that a
  reading of \<open>2^53 + 4\<close> is not above \<^verbatim>\<open>float64(2^53 + 3)\<close>. This is why
  the readings below are bounded.
\<close>

lemma float64_of_int_rounds:
  "float64_of_int (2 ^ 53 + 3) = 2 ^ 53 + 4"
proof -
  have "bitlen (2 ^ 53 + 3) = 54"
    using bitlen_twopow_add_eq [of 3 53] by simp
  then show ?thesis
    by (simp add: float64_of_int_def Let_def round_to_even_def)
qed

section \<open>Properties of IP masking\<close>

lemma strings_Split_nonempty: "strings_Split s sep \<noteq> []"
  by (induction s) (auto split: list.splits)

lemma length_strings_Split: "length (strings_Split s sep) = Suc (strings_Count s sep)"
proof (induction s)
  case Nil
  show ?case by (simp add: strings_Count_def)
next
  case (Cons c s)
  then show ?case
    using strings_Split_nonempty [of s sep]
    by (auto simp: strings_Count_def split: list.splits)
qed

lemma strings_Count_0_iff: "strings_Count s sep = 0 \<longleftrightarrow> sep \<notin> set s"
  by (auto simp: strings_Count_def filter_empty_conv)

lemma after_last_notin: "sep \<notin> set s \<Longrightarrow> after_last sep s = s"
proof -
  assume "sep \<notin> set s"
  then have "\<forall>x\<in>set (rev s). x \<noteq> sep" by auto
  then have "takeWhile (\<lambda>c. c \<noteq> sep) (rev s) = rev s"
    by (simp only: takeWhile_eq_all_conv)
  then show ?thesis by (simp only: after_last_def rev_rev_ident)
qed

lemma after_last_Cons_in: "sep \<in> set s \<Longrightarrow> after_last sep (c # s) = after_last sep s"
  by (auto simp: after_last_def takeWhile_append)

lemma after_last_Cons_sep: "sep \<notin> set s \<Longrightarrow> after_last sep (sep # s) = s"
proof -
  assume a: "sep \<notin> set s"
  have "takeWhile (\<lambda>c. c \<noteq> sep) (rev s @ [sep]) =
      rev s @ takeWhile (\<lambda>c. c \<noteq> sep) [sep]"
    by (rule takeWhile_append2) (use a in auto)
  then have "takeWhile (\<lambda>c. c \<noteq> sep) (rev (sep # s)) = rev s" by simp
  then show ?thesis by (simp only: after_last_def rev_rev_ident)
qed

lemma last_strings_Split: "last (strings_Split s sep) = after_last sep s"
proof (induction s)
  case Nil
  show ?case by (simp add: after_last_def)
next
  case (Cons c s)
  obtain p ps where sp: "strings_Split s sep = p # ps"
    using strings_Split_nonempty [of s sep] by (cases "strings_Split s sep") auto
  have len: "length ps = strings_Count s sep"
    using length_strings_Split [of s sep] sp by simp
  show ?case
  proof (cases "sep \<in> set s")
    case True
    then have "ps \<noteq> []"
      using len strings_Count_0_iff [of s sep] by auto
    then have "last (strings_Split (c # s) sep) = last (strings_Split s sep)"
      using sp by auto
    then show ?thesis
      using Cons.IH True by (simp add: after_last_Cons_in)
  next
    case False
    then have ps: "ps = []"
      using len strings_Count_0_iff [of s sep] by auto
    from False have "after_last sep s = s" by (rule after_last_notin)
    with Cons.IH sp ps have p: "p = s" by simp
    show ?thesis
    proof (cases "c = sep")
      case True
      then show ?thesis
        using sp ps p False by (simp add: after_last_Cons_sep)
    next
      case c: False
      with False have "sep \<notin> set (c # s)" by auto
      then have "after_last sep (c # s) = c # s" by (rule after_last_notin)
      then show ?thesis using sp ps p c by simp
    qed
  qed
qed

lemma strings_Split_index_last:
  "strings_Count s sep = n \<Longrightarrow> go_index (strings_Split s sep) n = Some (after_last sep s)"
  using length_strings_Split [of s sep] strings_Split_nonempty [of s sep]
    last_strings_Split [of s sep]
  by (simp add: go_index_def last_conv_nth)

lemma drop_last_bytes: "drop (length s - n) s = last_bytes n s"
  by (simp add: last_bytes_def rev_take)

lemma maskIP_ipv4:
  "strings_Count ip (CHR ''.'') = 3 \<Longrightarrow>
   maskIP ip = Some (''x.x.x.'' @ after_last (CHR ''.'') ip)"
  by (simp add: maskIP_def strings_Split_index_last)

lemma maskIP_ipv6:
  assumes "strings_Count ip (CHR ''.'') \<noteq> 3" and "CHR '':'' \<in> set ip"
  shows "maskIP ip =
     Some (''...'' @ (let r = filter (\<lambda>c. c \<noteq> CHR '':'') ip
                      in if 8 < length r then last_bytes 8 r else r))"
  using assms
  by (simp add: maskIP_def strings_Contains_def strings_ReplaceAll_empty_def
      drop_last_bytes Let_def)

lemma maskIP_other:
  "strings_Count ip (CHR ''.'') \<noteq> 3 \<Longrightarrow> CHR '':'' \<notin> set ip \<Longrightarrow> maskIP ip = Some ip"
  by (simp add: maskIP_def strings_Contains_def)

section \<open>Properties of the alert blocks\<close>

lemma alertSent_get_set:
  "alertSent_get (alertSent_set m k b) k' = (if k' = k then b else alertSent_get m k')"
  by (simp add: alertSent_get_def alertSent_set_def)

lemma alertSent_set_other: "k' \<noteq> k \<Longrightarrow> alertSent (alertSent_set m k b) k' = alertSent m k'"
  by (simp add: alertSent_set_def)

lemma outbox_alertSent_set: "outbox (alertSent_set m k b) = outbox m"
  by (simp add: alertSent_set_def)

lemma config_alertSent_set: "config (alertSent_set m k b) = config m"
  by (simp add: alertSent_set_def)

lemma alertSent_get_sendMessage: "alertSent_get (sendMessage m x) k = alertSent_get m k"
  by (simp add: alertSent_get_def sendMessage_def)

lemma alertSent_sendMessage: "alertSent (sendMessage m x) = alertSent m"
  by (simp add: sendMessage_def)

lemma outbox_sendMessage: "outbox (sendMessage m x) = outbox m @ [x]"
  by (simp add: sendMessage_def)

lemma config_sendMessage: "config (sendMessage m x) = config m"
  by (simp add: sendMessage_def)

lemmas monitor_simps =
  alertSent_get_set outbox_alertSent_set config_alertSent_set alertSent_get_sendMessage
  alertSent_sendMessage outbox_sendMessage config_sendMessage

text \<open>
  Where \<open>threshold - 10\<close> does not wrap around and the reading is of magnitude below
  \<open>2^53\<close>, the block compares the reading with the threshold and with the threshold
  less ten.
\<close>

lemma alert_block_exact:
  assumes "is_int64 (threshold - 10)" and "\<bar>percent\<bar> < 2 ^ 53"
  shows "alert_block key render percent threshold m =
     (if of_int threshold < percent \<and> \<not> alertSent_get m key then
        alertSent_set (sendMessage m (render percent)) key True
      else if percent \<le> of_int threshold - 10 then alertSent_set m key False
      else m)"
proof -
  have "go_int_sub threshold 10 = threshold - 10"
    using assms(1) by (simp add: go_int_sub_def int64_wrap_id)
  then show ?thesis
    using float64_of_int_less_iff [OF assms(2), of threshold]
      float64_of_int_le_iff [OF assms(2), of "threshold - 10"]
    by (simp add: alert_block_def)
qed

lemma alert_block_frame:
  "config (alert_block key render percent threshold m) = config m"
  "k \<noteq> key \<Longrightarrow> alertSent (alert_block key render percent threshold m) k = alertSent m k"
  by (simp_all add: alert_block_def monitor_simps alertSent_set_other)

lemma alert_block_other_flag:
  "k \<noteq> key \<Longrightarrow>
   alertSent_get (alert_block key render percent threshold m) k = alertSent_get m k"
  by (simp add: alertSent_get_def alert_block_frame)

text \<open>The flag of a metric after its block depends on the state through that flag only.\<close>

lemma alert_block_flag_cong:
  "alertSent_get m key = alertSent_get n key \<Longrightarrow>
   alertSent_get (alert_block key render percent threshold m) key =
   alertSent_get (alert_block key render' percent threshold n) key"
  by (simp add: alert_block_def monitor_simps)

lemma tick_cpu_flag:
  "alertSent_get (realTimeAlert_tick m (c, r)) ''cpu'' =
   alertSent_get
     (alert_block ''cpu'' cpu_alert_text (getCPUUsage c) (CPUThreshold (config m)) m) ''cpu''"
  by (simp add: realTimeAlert_tick_def Let_def alert_block_other_flag)

lemma tick_mem_flag:
  "alertSent_get (realTimeAlert_tick m (c, r)) ''mem'' =
   alertSent_get
     (alert_block ''mem'' mem_alert_text (mem_UsedPercent (getMemoryInfo r))
        (MemThreshold (config m)) m) ''mem''"
proof -
  let ?m1 = "alert_block ''cpu'' cpu_alert_text (getCPUUsage c) (CPUThreshold (config m)) m"
  have "alertSent_get ?m1 ''mem'' = alertSent_get m ''mem''"
    by (simp add: alert_block_other_flag)
  then have "alertSent_get
      (alert_block ''mem'' mem_alert_text (mem_UsedPercent (getMemoryInfo r))
         (MemThreshold (config m)) ?m1) ''mem'' =
    alertSent_get
      (alert_block ''mem'' mem_alert_text (mem_UsedPercent (getMemoryInfo r))
         (MemThreshold (config m)) m) ''mem''"
    by (rule alert_block_flag_cong)
  then show ?thesis
    by (simp add: realTimeAlert_tick_def Let_def alert_block_frame)
qed

lemma tick_config: "config (realTimeAlert_tick m s) = config m"
  by (cases s) (simp add: realTimeAlert_tick_def Let_def alert_block_frame)

text \<open>A firing flag stays set when the threshold is below ten and the reading is not negative.\<close>

lemma alert_block_low_threshold:
  assumes "is_int64 (threshold - 10)" and "threshold < 10" and "0 \<le> percent"
    and "percent \<le> 100" and "alertSent_get m key"
  shows "alert_block key render percent threshold m = m"
proof -
  have "\<bar>percent\<bar> < 2 ^ 53" using assms(3,4) by simp
  moreover have "\<not> percent \<le> of_int threshold - 10"
  proof -
    have "real_of_int threshold < 10" using assms(2) by linarith
    then show ?thesis using assms(3) by simp
  qed
  ultimately show ?thesis
    using assms(1,5) by (simp add: alert_block_exact)
qed

text \<open>With the flag set, a reading above the threshold changes nothing.\<close>

lemma alert_block_still_firing:
  assumes "is_int64 (threshold - 10)" and "\<bar>percent\<bar> < 2 ^ 53"
    and "of_int threshold < percent" and "alertSent_get m key"
  shows "alert_block key render percent threshold m = m"
  using assms by (simp add: alert_block_exact)

lemma alert_block_fires:
  assumes "\<bar>percent\<bar> < 2 ^ 53" and "of_int threshold < percent" and "\<not> alertSent_get m key"
  shows "alert_block key render percent threshold m =
     alertSent_set (sendMessage m (render percent)) key True"
  using assms float64_of_int_less_iff [OF assms(1), of threshold]
  by (simp add: alert_block_def)

lemma transition_same [simp]: "transition key m m = NoTransition"
  by (simp add: transition_def)

lemma notifications_same [simp]: "notifications m m = []"
  by (simp add: notifications_def)

text \<open>
  With the least threshold, \<open>threshold - 10\<close> wraps around to \<open>2^63 - 10\<close>: a reading
  of 50 fires a clear alert and clears a firing one.
\<close>

lemma go_int_sub_wraps: "go_int_sub min_int64 10 = 2 ^ 63 - 10"
  by (simp add: go_int_sub_def int64_wrap_def min_int64_def)

lemma least_threshold_below: "float64_of_int min_int64 < 50"
proof -
  have "float64_of_int min_int64 \<le> - (2 ^ 53)"
    by (rule float64_of_int_le) (simp add: min_int64_def)
  then show ?thesis by simp
qed

lemma wrapped_bound_above: "50 \<le> float64_of_int (go_int_sub min_int64 10)"
proof -
  have "(2::real) ^ 53 \<le> float64_of_int (2 ^ 63 - 10)"
    by (rule float64_of_int_ge) simp
  then show ?thesis
    unfolding go_int_sub_wraps by simp
qed

lemma alert_block_wrap_fires:
  "\<not> alertSent_get m key \<Longrightarrow>
   alert_block key render 50 min_int64 m =
     alertSent_set (sendMessage m (render 50)) key True"
  using least_threshold_below by (simp add: alert_block_def)

lemma alert_block_wrap_clears:
  "alertSent_get m key \<Longrightarrow>
   alert_block key render 50 min_int64 m = alertSent_set m key False"
  using wrapped_bound_above by (simp add: alert_block_def)

text \<open>The loop, for a threshold below ten and readings in \<open>[0, 100]\<close>.\<close>

lemma loop_cpu_low_threshold:
  assumes "is_int64 (CPUThreshold (config m) - 10)" and "CPUThreshold (config m) < 10"
    and "\<forall>s\<in>set samples. 0 \<le> getCPUUsage (fst s) \<and> getCPUUsage (fst s) \<le> 100"
    and "alertSent_get m ''cpu''"
  shows "alertSent_get (startRealTimeAlert m samples) ''cpu''"
  using assms
proof (induction samples arbitrary: m)
  case Nil
  then show ?case by simp
next
  case (Cons s samples)
  obtain c r where s: "s = (c, r)" by (cases s)
  from Cons.prems have v: "0 \<le> getCPUUsage c" "getCPUUsage c \<le> 100"
    by (simp_all add: s)
  have "alert_block ''cpu'' cpu_alert_text (getCPUUsage c) (CPUThreshold (config m)) m = m"
    using Cons.prems(1,2) v Cons.prems(4) by (rule alert_block_low_threshold)
  then have f: "alertSent_get (realTimeAlert_tick m s) ''cpu''"
    using Cons.prems(4) by (simp add: s tick_cpu_flag)
  have "alertSent_get (startRealTimeAlert (realTimeAlert_tick m s) samples) ''cpu''"
    using Cons.prems f by (intro Cons.IH) (simp_all add: tick_config)
  then show ?case by simp
qed

lemma loop_mem_low_threshold:
  assumes "is_int64 (MemThreshold (config m) - 10)" and "MemThreshold (config m) < 10"
    and "\<forall>s\<in>set samples. 0 \<le> mem_UsedPercent (getMemoryInfo (snd s)) \<and>
           mem_UsedPercent (getMemoryInfo (snd s)) \<le> 100"
    and "alertSent_get m ''mem''"
  shows "alertSent_get (startRealTimeAlert m samples) ''mem''"
  using assms
proof (induction samples arbitrary: m)
  case Nil
  then show ?case by simp
next
  case (Cons s samples)
  obtain c r where s: "s = (c, r)" by (cases s)
  from Cons.prems have v: "0 \<le> mem_UsedPercent (getMemoryInfo r)"
      "mem_UsedPercent (getMemoryInfo r) \<le> 100"
    by (simp_all add: s)
  have "alert_block ''mem'' mem_alert_text (mem_UsedPercent (getMemoryInfo r))
      (MemThreshold (config m)) m = m"
    using Cons.prems(1,2) v Cons.prems(4) by (rule alert_block_low_threshold)
  then have f: "alertSent_get (realTimeAlert_tick m s) ''mem''"
    using Cons.prems(4) by (simp add: s tick_mem_flag)
  have "alertSent_get (startRealTimeAlert (realTimeAlert_tick m s) samples) ''mem''"
    using Cons.prems f by (intro Cons.IH) (simp_all add: tick_config)
  then show ?case by simp
qed

lemma transition_not_Cleared: "alertSent_get m' key \<Longrightarrow> transition key m m' \<noteq> Cleared"
  by (simp add: transition_def)

text \<open>Readings above the threshold, one after the other, with the flag set.\<close>

lemma foldl_still_firing:
  assumes "is_int64 (threshold - 10)" and "of_int threshold < v"
    and "\<forall>w\<in>set ws. v \<le> w \<and> \<bar>w\<bar> < 2 ^ 53" and "alertSent_get m key"
  shows "foldl (\<lambda>s w. alert_block key render w threshold s) m ws = m"
  using assms(3)
proof (induction ws)
  case Nil
  show ?case by simp
next
  case (Cons w ws)
  then have "of_int threshold < w" "\<bar>w\<bar> < 2 ^ 53" using assms(2) by auto
  then have "alert_block key render w threshold m = m"
    using assms(1,4) by (intro alert_block_still_firing)
  then show ?case using Cons by simp
qed

section \<open>Properties of the calendar and of the scheduler\<close>

lemma int_div_unique: "0 \<le> r \<Longrightarrow> r < k \<Longrightarrow> (q * k + r) div k = (q::int)"
  by (simp add: div_pos_pos_trivial)

text \<open>The year found for a day and the day of that year add up to the day.\<close>

lemma year_of_days_sum:
  assumes "year_of_days n = (y, yday)"
  shows "days_before_year y + yday = n"
proof -
  define a where "a = n div 146097"
  define r where "r = n mod 146097"
  define b where "b = min 3 (r div 36524)"
  define r2 where "r2 = r - b * 36524"
  define c where "c = r2 div 1461"
  define r3 where "r3 = r2 mod 1461"
  define e where "e = min 3 (r3 div 365)"
  have y: "y = 400 * a + 100 * b + 4 * c + e + 1" and yd: "yday = r3 - e * 365"
    using assms
    by (simp_all add: year_of_days_def Let_def a_def r_def b_def r2_def c_def r3_def e_def)
  have rb: "0 \<le> r" "r < 146097" by (simp_all add: r_def)
  have bb: "0 \<le> b" "b \<le> 3" using rb by (simp_all add: b_def)
  have r2b: "0 \<le> r2" "r2 \<le> 36524" using rb unfolding r2_def b_def by (auto simp: min_def)
  have cb: "0 \<le> c" "c \<le> 24" using r2b unfolding c_def by arith+
  have r3b: "0 \<le> r3" "r3 < 1461" by (simp_all add: r3_def)
  have eb: "0 \<le> e" "e \<le> 3" using r3b by (simp_all add: e_def)
  have n: "n = 146097 * a + r" by (simp add: a_def r_def)
  have r2': "r2 = 1461 * c + r3" by (simp add: c_def r3_def)
  have d4: "(400 * a + 100 * b + 4 * c + e) div 4 = 100 * a + 25 * b + c"
    using int_div_unique [of e 4 "100 * a + 25 * b + c"] eb by (simp add: algebra_simps)
  have d100: "(400 * a + 100 * b + 4 * c + e) div 100 = 4 * a + b"
    using int_div_unique [of "4 * c + e" 100 "4 * a + b"] eb cb by (simp add: algebra_simps)
  have d400: "(400 * a + 100 * b + 4 * c + e) div 400 = a"
    using int_div_unique [of "100 * b + 4 * c + e" 400 a] eb cb bb by (simp add: algebra_simps)
  show ?thesis
    using d4 d100 d400 n r2'
    by (simp add: days_before_year_def y yd r2_def)
qed

lemma month_of_yday_range: "1 \<le> month_of_yday leap yday \<and> month_of_yday leap yday \<le> 12"
  by (simp add: month_of_yday_def)

text \<open>\<^verbatim>\<open>time.Date\<close> of the date of a day is that day.\<close>

lemma days_from_civil_of_days:
  assumes "civil_of_days z = (y, mo, d)"
  shows "days_from_civil y mo d = z"
proof -
  obtain y' yday where yd: "year_of_days (z + unix_epoch_days) = (y', yday)"
    by (cases "year_of_days (z + unix_epoch_days)")
  from assms yd have y: "y = y'" and mo: "mo = month_of_yday (is_leap y) yday"
    and d: "d = yday - days_before_month (is_leap y) mo + 1"
    by (auto simp: civil_of_days_def Let_def)
  have range: "1 \<le> mo" "mo \<le> 12" using month_of_yday_range [of "is_leap y" yday] mo by simp_all
  then have norm: "(mo - 1) div 12 = 0" "(mo - 1) mod 12 + 1 = mo" by simp_all
  have "days_before_year y + yday = z + unix_epoch_days"
    using year_of_days_sum [OF yd] y by simp
  then show ?thesis
    by (simp add: days_from_civil_def Let_def norm d)
qed

lemma go_Date_today:
  "go_Date (go_Year t off) (go_Month t off) (go_Day t off) h mi s ns off =
   (zone_seconds t off div 86400 * 86400 + h * 3600 + mi * 60 + s - off) * Second + ns"
proof -
  obtain y mo d where c: "civil_of_days (zone_seconds t off div 86400) = (y, mo, d)"
    by (cases "civil_of_days (zone_seconds t off div 86400)") auto
  then have "days_from_civil y mo d = zone_seconds t off div 86400"
    by (rule days_from_civil_of_days)
  then show ?thesis
    by (simp add: go_Date_def go_Year_def go_Month_def go_Day_def go_civil_def c)
qed

lemma zone_seconds_today:
  "zone_seconds (day_start t off + k * Second) off = zone_seconds t off div 86400 * 86400 + k"
  by (simp add: zone_seconds_def day_start_def Second_def flip: distrib_right)

lemma same_day:
  assumes "0 \<le> k" and "k < 86400"
  shows "zone_seconds (day_start t off + k * Second) off div 86400 = zone_seconds t off div 86400"
    and "zone_seconds (day_start t off + k * Second) off mod 86400 = k"
  using assms by (simp_all add: zone_seconds_today int_div_unique)

lemma is_digit_val: "is_digit ch \<Longrightarrow> 0 \<le> digit_val ch \<and> digit_val ch \<le> 9"
  by (auto simp: is_digit_def digit_val_def)

lemma parse_hour_nonneg: "parse_hour s = Some (h, r) \<Longrightarrow> 0 \<le> h"
  using is_digit_val
  by (fastforce simp: parse_hour_def split: list.splits if_splits)

lemma parse_minute_nonneg: "parse_minute s = Some (mi, r) \<Longrightarrow> 0 \<le> mi"
  using is_digit_val
  by (fastforce simp: parse_minute_def split: list.splits if_splits)

lemma time_Parse_1504_range:
  assumes "time_Parse_1504 s = Some (h, mi)"
  shows "0 \<le> h \<and> h < 24 \<and> 0 \<le> mi \<and> mi < 60"
  using assms parse_hour_nonneg parse_minute_nonneg
  by (fastforce simp: time_Parse_1504_def split: option.splits list.splits if_splits)

lemma next_report_eq:
  assumes "time_Parse_1504 report_time = Some (h, mi)"
  shows "next_report now report_time =
     Some (if today_at now h mi < now then today_at now h mi + 24 * Hour
           else today_at now h mi)"
proof -
  have "go_Date (go_Year now cst) (go_Month now cst) (go_Day now cst) h mi 0 0 cst =
      today_at now h mi"
    by (simp add: go_Date_today today_at_def day_start_def algebra_simps)
  then show ?thesis
    using assms by (simp add: next_report_def Let_def)
qed

lemma today_at_fields:
  assumes "0 \<le> h" and "h < 24" and "0 \<le> mi" and "mi < 60"
  shows "go_civil (today_at now h mi) cst = go_civil now cst"
    and "go_Hour (today_at now h mi) cst = h"
    and "go_Minute (today_at now h mi) cst = mi"
    and "go_Second (today_at now h mi) cst = 0"
    and "today_at now h mi mod Second = 0"
proof -
  let ?k = "h * 3600 + mi * 60"
  have k: "0 \<le> ?k" "?k < 86400" using assms by auto
  note sd = same_day [OF k, of now cst]
  show "go_civil (today_at now h mi) cst = go_civil now cst"
    by (simp only: go_civil_def today_at_def sd)
  have z: "zone_seconds (today_at now h mi) cst = zone_seconds now cst div 86400 * 86400 + ?k"
    by (simp only: today_at_def zone_seconds_today)
  have m1: "zone_seconds (today_at now h mi) cst mod 86400 = ?k"
    by (simp only: today_at_def sd)
  have "?k div 3600 = h"
    using int_div_unique [of "mi * 60" 3600 h] assms by simp
  then show "go_Hour (today_at now h mi) cst = h"
    by (simp only: go_Hour_def m1)
  have "zone_seconds (today_at now h mi) cst =
      (zone_seconds now cst div 86400 * 24 + h) * 3600 + mi * 60"
    unfolding z by simp
  moreover have "0 \<le> mi * 60" "mi * 60 < 3600" using assms by auto
  ultimately have "zone_seconds (today_at now h mi) cst mod 3600 = mi * 60"
    by (simp only: mod_mult_self3 mod_pos_pos_trivial)
  then show "go_Minute (today_at now h mi) cst = mi"
    by (simp add: go_Minute_def)
  have "zone_seconds (today_at now h mi) cst =
      (zone_seconds now cst div 86400 * 1440 + h * 60 + mi) * 60"
    unfolding z by simp
  then show "go_Second (today_at now h mi) cst = 0"
    by (simp add: go_Second_def)
  show "today_at now h mi mod Second = 0"
    by (simp add: today_at_def day_start_def flip: distrib_right)
qed

section \<open>Properties of uptime formatting\<close>

lemma go_int_div_nonneg: "0 \<le> a \<Longrightarrow> 0 < b \<Longrightarrow> go_int_div a b = a div b"
  by (cases "a = 0") (simp_all add: go_int_div_def)

lemma go_int_rem_nonneg: "0 \<le> a \<Longrightarrow> 0 < b \<Longrightarrow> go_int_rem a b = a mod b"
  by (simp add: go_int_rem_def go_int_div_nonneg minus_mult_div_eq_mod)

lemma go_int_of_float_whole_plus_fraction:
  assumes "0 \<le> q" and "0 \<le> f" and "f < 1"
  shows "go_int_of_float (of_int q + f) = q"
proof -
  have "\<lfloor>of_int q + f\<rfloor> = q" using assms by linarith
  moreover have "0 \<le> of_int q + f" using assms by simp
  ultimately show ?thesis by (simp add: go_int_of_float_def)
qed

lemma Duration_Hours_trunc:
  assumes "0 \<le> d"
  shows "go_int_of_float (Duration_Hours d) = d div Hour"
proof -
  have h: "0 < Hour" by (simp add: Hour_def Minute_def Second_def)
  have f: "real_of_int (d mod Hour) / (60 * 60 * 1000000000) < 1"
    using pos_mod_bound [OF h, of d] by (simp add: Hour_def Minute_def Second_def)
  have g: "0 \<le> real_of_int (d mod Hour) / (60 * 60 * 1000000000)"
    using pos_mod_sign [OF h, of d] by simp
  have q: "0 \<le> d div Hour" using assms h by (simp add: pos_imp_zdiv_nonneg_iff)
  show ?thesis
    using go_int_of_float_whole_plus_fraction [OF q g f] assms h
    by (simp add: Duration_Hours_def go_int_div_nonneg go_int_rem_nonneg)
qed

lemma Duration_Minutes_trunc:
  assumes "0 \<le> d"
  shows "go_int_of_float (Duration_Minutes d) = d div Minute"
proof -
  have h: "0 < Minute" by (simp add: Minute_def Second_def)
  have f: "real_of_int (d mod Minute) / (60 * 1000000000) < 1"
    using pos_mod_bound [OF h, of d] by (simp add: Minute_def Second_def)
  have g: "0 \<le> real_of_int (d mod Minute) / (60 * 1000000000)"
    using pos_mod_sign [OF h, of d] by simp
  have q: "0 \<le> d div Minute" using assms h by (simp add: pos_imp_zdiv_nonneg_iff)
  show ?thesis
    using go_int_of_float_whole_plus_fraction [OF q g f] assms h
    by (simp add: Duration_Minutes_def go_int_div_nonneg go_int_rem_nonneg)
qed

text \<open>
  The whole days, hours and minutes of an uptime whose nanoseconds fit an
  \<^verbatim>\<open>int64\<close>.
\<close>

lemma uptime_fields:
  assumes "int uptime * Second < 2 ^ 63"
  shows "go_int_mul (int64_wrap (int uptime)) Second = int uptime * Second"
    and "go_int_div (go_int_of_float (Duration_Hours (int uptime * Second))) 24 =
      int (uptime div 86400)"
    and "go_int_rem (go_int_of_float (Duration_Hours (int uptime * Second))) 24 =
      int (uptime div 3600 mod 24)"
    and "go_int_rem (go_int_of_float (Duration_Minutes (int uptime * Second))) 60 =
      int (uptime div 60 mod 60)"
proof -
  have u: "is_int64 (int uptime)"
    using assms by (simp add: is_int64_def Second_def)
  have d: "is_int64 (int uptime * Second)"
    using assms by (simp add: is_int64_def Second_def)
  show "go_int_mul (int64_wrap (int uptime)) Second = int uptime * Second"
    by (simp add: go_int_mul_def int64_wrap_id [OF u] int64_wrap_id [OF d])
  have nn: "0 \<le> int uptime * Second" by (simp add: Second_def)
  have hq: "int uptime * Second div Hour = int (uptime div 3600)"
    by (simp add: Hour_def Minute_def Second_def zdiv_int)
  have mq: "int uptime * Second div Minute = int (uptime div 60)"
    by (simp add: Minute_def Second_def zdiv_int)
  show "go_int_div (go_int_of_float (Duration_Hours (int uptime * Second))) 24 =
      int (uptime div 86400)"
    by (simp add: Duration_Hours_trunc [OF nn] hq go_int_div_nonneg zdiv_int div_mult2_eq)
  show "go_int_rem (go_int_of_float (Duration_Hours (int uptime * Second))) 24 =
      int (uptime div 3600 mod 24)"
    by (simp add: Duration_Hours_trunc [OF nn] hq go_int_rem_nonneg zmod_int)
  show "go_int_rem (go_int_of_float (Duration_Minutes (int uptime * Second))) 60 =
      int (uptime div 60 mod 60)"
    by (simp add: Duration_Minutes_trunc [OF nn] mq go_int_rem_nonneg zmod_int)
qed

lemma formatUptime_in_range:
  assumes "int uptime * Second < 2 ^ 63"
  shows "formatUptime uptime =
     (if 0 < uptime div 86400 then
        Sprintf_d (int (uptime div 86400)) @ str_days @
        Sprintf_d (int (uptime div 3600 mod 24)) @ str_hours @
        Sprintf_d (int (uptime div 60 mod 60)) @ str_minutes
      else if 0 < uptime div 3600 mod 24 then
        Sprintf_d (int (uptime div 3600 mod 24)) @ str_hours @
        Sprintf_d (int (uptime div 60 mod 60)) @ str_minutes
      else Sprintf_d (int (uptime div 60 mod 60)) @ str_minutes)"
  by (simp add: formatUptime_def Let_def uptime_fields [OF assms])

lemma show_nat_small: "n < 10 \<Longrightarrow> show_nat n = [digit_char n]"
  by (simp add: show_nat.simps)

lemma show_nat_big: "10 \<le> n \<Longrightarrow> show_nat n = show_nat (n div 10) @ [digit_char (n mod 10)]"
  by (subst show_nat.simps) simp

lemmas show_simps = show_nat_small show_nat_big digit_char_def Sprintf_d_def

text \<open>
  An uptime of 9223372037 seconds: its nanoseconds do not fit an \<^verbatim>\<open>int64\<close>,
  and the duration wraps around to a negative one.
\<close>

lemma uptime_wraps:
  "go_int_mul (int64_wrap 9223372037) Second = - 9223372036709551616"
  by (simp add: go_int_mul_def int64_wrap_def Second_def)

lemma wrapped_Hours: "go_int_of_float (Duration_Hours (- 9223372036709551616)) = - 2562047"
  by (simp add: Duration_Hours_def go_int_div_def go_int_rem_def Hour_def Minute_def
      Second_def go_int_of_float_def)

lemma wrapped_Minutes:
  "go_int_of_float (Duration_Minutes (- 9223372036709551616)) = - 153722867"
  by (simp add: Duration_Minutes_def go_int_div_def go_int_rem_def Minute_def Second_def
      go_int_of_float_def)

lemma wrapped_fields:
  "go_int_div (- 2562047) 24 = - 106751"
  "go_int_rem (- 2562047) 24 = - 23"
  "go_int_rem (- 153722867) 60 = - 47"
  by (simp_all add: go_int_div_def go_int_rem_def)

section \<open>Properties of the report and of the alert pass\<close>

lemma maskIP_total: "\<exists>masked. maskIP ip = Some masked"
proof (cases "strings_Count ip (CHR ''.'') = 3")
  case True
  then show ?thesis by (simp add: maskIP_ipv4)
next
  case False
  then show ?thesis
    by (cases "CHR '':'' \<in> set ip") (simp_all add: maskIP_ipv6 maskIP_other)
qed

lemma generateReport_total: "\<exists>report. generateReport m p = Some report"
proof -
  obtain masked where "maskIP (IP (getLocationInfo (p_trace p))) = Some masked"
    using maskIP_total by blast
  then show ?thesis
    by (simp add: generateReport_def Let_def)
qed

lemma unknown_not_empty: "unknown \<noteq> ''''"
  by (simp add: unknown_def)

lemma getLocationInfo_not_empty:
  "IP (getLocationInfo resp) \<noteq> ''''" "Location (getLocationInfo resp) \<noteq> ''''"
  by (cases resp; simp add: getLocationInfo_def Let_def unknown_not_empty)+

text \<open>A body without the lines \<open>ip=\<close> and \<open>loc=\<close> leaves both fields unknown.\<close>

lemma trace_line_other:
  "\<not> strings_HasPrefix line ''ip='' \<Longrightarrow> \<not> strings_HasPrefix line ''loc='' \<Longrightarrow>
   IP (trace_line info line) = IP info \<and> Location (trace_line info line) = Location info"
  by (simp add: trace_line_def)

lemma foldl_trace_line_other:
  assumes "\<forall>line\<in>set lines. \<not> strings_HasPrefix line ''ip='' \<and> \<not> strings_HasPrefix line ''loc=''"
  shows "IP (foldl trace_line info lines) = IP info \<and>
     Location (foldl trace_line info lines) = Location info"
  using assms
proof (induction lines arbitrary: info)
  case Nil
  show ?case by simp
next
  case (Cons line lines)
  then show ?case by (simp add: trace_line_other)
qed

lemma getLocationInfo_no_fields:
  assumes "\<forall>line\<in>set (strings_Split body (CHR 0x0A)).
      \<not> strings_HasPrefix line ''ip='' \<and> \<not> strings_HasPrefix line ''loc=''"
  shows "IP (getLocationInfo (Body body)) = unknown \<and>
     Location (getLocationInfo (Body body)) = unknown"
  using foldl_trace_line_other [OF assms, of "\<lparr>IP = '''', Location = '''', Country = ''''\<rparr>"]
  by (simp add: getLocationInfo_def Let_def)

text \<open>The alert pass: what it sends, and that it leaves the flags alone.\<close>

lemma checkAndSendAlert_exact:
  assumes "\<bar>getCPUUsage (a_cpu p)\<bar> < 2 ^ 53"
    and "\<bar>mem_UsedPercent (getMemoryInfo (a_mem p))\<bar> < 2 ^ 53"
  shows "checkAndSendAlert m p =
     (if breaches m p = [] then m else sendMessage m (alert_notice (breaches m p) (a_now p)))"
  using float64_of_int_less_iff [OF assms(1), of "CPUThreshold (config m)"]
    float64_of_int_less_iff [OF assms(2), of "MemThreshold (config m)"]
  by (simp add: checkAndSendAlert_def Let_def breaches_def)

lemma checkAndSendAlert_frame:
  "alertSent (checkAndSendAlert m p) = alertSent m"
  "config (checkAndSendAlert m p) = config m"
  by (simp_all add: checkAndSendAlert_def Let_def monitor_simps)

lemma checkAndSendAlert_ignores_flags:
  "outbox (checkAndSendAlert (m\<lparr>alertSent := flags\<rparr>) p) = outbox (checkAndSendAlert m p)"
  by (simp add: checkAndSendAlert_def Let_def monitor_simps)

lemma scheduledReport_round_flags:
  "scheduledReport_round m r p = Some m' \<Longrightarrow> alertSent m' = alertSent m"
  by (auto simp: scheduledReport_round_def checkAndSendAlert_frame monitor_simps
      split: option.splits)

section \<open>Properties of configuration loading\<close>

lemma env_steps:
  "(if getenv name \<noteq> '''' then c\<lparr>BotToken := getenv name\<rparr> else c) =
     c\<lparr>BotToken := first_of None (env_string getenv name) (BotToken c)\<rparr>"
  "(if getenv name \<noteq> '''' then c\<lparr>ReportTime := getenv name\<rparr> else c) =
     c\<lparr>ReportTime := first_of None (env_string getenv name) (ReportTime c)\<rparr>"
  "(if getenv name \<noteq> '''' then c\<lparr>CustomMessage := getenv name\<rparr> else c) =
     c\<lparr>CustomMessage := first_of None (env_string getenv name) (CustomMessage c)\<rparr>"
  "(if getenv name \<noteq> '''' then
      (case strconv_ParseInt (getenv name) of Some v \<Rightarrow> c\<lparr>ChatID := v\<rparr> | None \<Rightarrow> c)
    else c) = c\<lparr>ChatID := first_of None (env_int getenv name) (ChatID c)\<rparr>"
  "(if getenv name \<noteq> '''' then
      (case strconv_Atoi (getenv name) of Some v \<Rightarrow> c\<lparr>CPUThreshold := v\<rparr> | None \<Rightarrow> c)
    else c) = c\<lparr>CPUThreshold := first_of None (env_int getenv name) (CPUThreshold c)\<rparr>"
  "(if getenv name \<noteq> '''' then
      (case strconv_Atoi (getenv name) of Some v \<Rightarrow> c\<lparr>MemThreshold := v\<rparr> | None \<Rightarrow> c)
    else c) = c\<lparr>MemThreshold := first_of None (env_int getenv name) (MemThreshold c)\<rparr>"
  for c :: Config
  by (simp_all add: first_of_def env_string_def env_int_def strconv_Atoi_def
      split: option.splits)

lemma loadConfig_merged:
  "loadConfig getenv file =
     (if BotToken (merged_config getenv file) = '''' then Inl MissingBotToken
      else if ChatID (merged_config getenv file) = 0 then Inl MissingChatID
      else Inr (merged_config getenv file))"
proof -
  have m: "(case file of None \<Rightarrow> c | Some j \<Rightarrow> json_Unmarshal j c) =
      \<lparr>BotToken = first_of (Option.bind file json_bot_token) None (BotToken c),
       ChatID = first_of (Option.bind file json_chat_id) None (ChatID c),
       ReportTime = first_of (Option.bind file json_report_time) None (ReportTime c),
       CustomMessage = first_of (Option.bind file json_custom_message) None (CustomMessage c),
       CPUThreshold = first_of (Option.bind file json_cpu_threshold) None (CPUThreshold c),
       MemThreshold = first_of (Option.bind file json_mem_threshold) None (MemThreshold c)\<rparr>"
    for c
    by (cases "file") (simp_all add: json_Unmarshal_def first_of_def split: option.splits)
  have f: "first_of a None (first_of None b d) = first_of a b d" for a b :: "'a option" and d
    by (simp add: first_of_def split: option.splits)
  show ?thesis
    unfolding loadConfig_def Let_def env_steps m
    by (simp add: merged_config_def default_config_def f)
qed
lemma loadConfig_Inr:
  "loadConfig getenv file = Inr c \<Longrightarrow> c = merged_config getenv file"
  by (simp add: loadConfig_merged split: if_splits)

lemma first_of_Some: "first_of (Some a) b d = a"
  by (simp add: first_of_def)

lemma ParseInt_chat: "strconv_ParseInt ''-1001234567890'' = Some (- 1001234567890)"
  by (simp add: strconv_ParseInt_def strconv_ParseUint_def is_digit_def digit_val_def)

lemma ParseInt_90: "strconv_ParseInt ''90'' = Some 90"
  by (simp add: strconv_ParseInt_def strconv_ParseUint_def is_digit_def digit_val_def)

lemma example_merged:
  "merged_config example_env (Some example_file) =
     \<lparr>BotToken = ''123456:token'', ChatID = - 1001234567890, ReportTime = ''18:30'',
      CustomMessage = default_custom_message, CPUThreshold = 90, MemThreshold = 70\<rparr>"
  by (simp add: merged_config_def example_env_def example_file_def first_of_def
      env_string_def env_int_def ParseInt_chat ParseInt_90)

lemma example_loaded:
  "loadConfig example_env (Some example_file) =
     Inr \<lparr>BotToken = ''123456:token'', ChatID = - 1001234567890, ReportTime = ''18:30'',
          CustomMessage = default_custom_message, CPUThreshold = 90, MemThreshold = 70\<rparr>"
  by (simp add: loadConfig_merged example_merged)

text \<open>
  The least threshold is one the program accepts: \<^const>\<open>loadConfig\<close> takes it from
  the environment.
\<close>

lemma ParseInt_least: "strconv_ParseInt ''-9223372036854775808'' = Some min_int64"
  by (simp add: strconv_ParseInt_def strconv_ParseUint_def is_digit_def digit_val_def
      min_int64_def)

lemma ParseInt_chat_id: "strconv_ParseInt ''1001234567890'' = Some 1001234567890"
  by (simp add: strconv_ParseInt_def strconv_ParseUint_def is_digit_def digit_val_def)

lemma least_threshold_loaded:
  "\<exists>c. loadConfig least_threshold_env None = Inr c \<and> CPUThreshold c = min_int64"
proof -
  have "CPUThreshold (merged_config least_threshold_env None) = min_int64"
    by (simp add: merged_config_def first_of_def env_int_def least_threshold_env_def
        ParseInt_least)
  moreover have "BotToken (merged_config least_threshold_env None) \<noteq> ''''"
    by (simp add: merged_config_def first_of_def env_string_def least_threshold_env_def)
  moreover have "ChatID (merged_config least_threshold_env None) \<noteq> 0"
    by (simp add: merged_config_def first_of_def env_int_def least_threshold_env_def
        ParseInt_chat_id)
  ultimately show ?thesis
    by (simp add: loadConfig_merged)
qed

section \<open>The claims about IP masking\<close>

text \<open>
  Claim C4. For every input with exactly three \<open>.\<close> bytes, \<^const>\<open>maskIP\<close> returns
  the literal \<open>x.x.x.\<close> followed by the text after the last dot, so
  \<open>203.0.113.77\<close> is masked to \<open>x.x.x.77\<close>; for every other input that contains
  a \<open>:\<close> it removes all colons and returns \<open>...\<close> followed by the last 8 bytes of
  the remainder when that is longer than 8 bytes, and by the whole remainder otherwise;
  every other input is returned unmodified. The function never panics.
\<close>

theorem maskIP_cases:
  "(strings_Count ip (CHR ''.'') = 3 \<longrightarrow>
      maskIP ip = Some (''x.x.x.'' @ after_last (CHR ''.'') ip)) \<and>
   (strings_Count ip (CHR ''.'') \<noteq> 3 \<and> CHR '':'' \<in> set ip \<longrightarrow>
      maskIP ip =
        Some (''...'' @ (let r = filter (\<lambda>c. c \<noteq> CHR '':'') ip
                         in if 8 < length r then last_bytes 8 r else r))) \<and>
   (strings_Count ip (CHR ''.'') \<noteq> 3 \<and> CHR '':'' \<notin> set ip \<longrightarrow> maskIP ip = Some ip) \<and>
   maskIP ''203.0.113.77'' = Some ''x.x.x.77''"
proof (intro conjI impI)
  assume "strings_Count ip (CHR ''.'') = 3"
  then show "maskIP ip = Some (''x.x.x.'' @ after_last (CHR ''.'') ip)"
    by (rule maskIP_ipv4)
next
  assume "strings_Count ip (CHR ''.'') \<noteq> 3 \<and> CHR '':'' \<in> set ip"
  then show "maskIP ip =
      Some (''...'' @ (let r = filter (\<lambda>c. c \<noteq> CHR '':'') ip
                       in if 8 < length r then last_bytes 8 r else r))"
    by (simp add: maskIP_ipv6)
next
  assume "strings_Count ip (CHR ''.'') \<noteq> 3 \<and> CHR '':'' \<notin> set ip"
  then show "maskIP ip = Some ip" by (simp add: maskIP_other)
next
  have "strings_Count ''203.0.113.77'' (CHR ''.'') = 3"
    by (simp add: strings_Count_def)
  then have "maskIP ''203.0.113.77'' =
      Some (''x.x.x.'' @ after_last (CHR ''.'') ''203.0.113.77'')"
    by (rule maskIP_ipv4)
  then show "maskIP ''203.0.113.77'' = Some ''x.x.x.77''"
    by (simp add: after_last_def)
qed

theorem maskIP_cases_witness:
  "strings_Count ''10.20.30.40'' (CHR ''.'') = 3 \<and>
   maskIP ''10.20.30.40'' = Some ''x.x.x.40'' \<and>
   strings_Count ''2001:db8::ff00:42:8329'' (CHR ''.'') \<noteq> 3 \<and>
   CHR '':'' \<in> set ''2001:db8::ff00:42:8329'' \<and>
   maskIP ''2001:db8::ff00:42:8329'' = Some ''...00428329'' \<and>
   maskIP ''::1'' = Some ''...1'' \<and>
   strings_Count ''localhost'' (CHR ''.'') \<noteq> 3 \<and>
   CHR '':'' \<notin> set ''localhost'' \<and>
   maskIP ''localhost'' = Some ''localhost''"
  using maskIP_cases [of "''10.20.30.40''"]
    maskIP_cases [of "''2001:db8::ff00:42:8329''"]
    maskIP_cases [of "''::1''"]
    maskIP_cases [of "''localhost''"]
  by (simp add: strings_Count_def after_last_def last_bytes_def)

text \<open>
  Claim C10. An input that has exactly three \<open>.\<close> bytes and also contains \<open>:\<close>
  (an IPv4-mapped IPv6 address such as \<open>::ffff:203.0.113.77\<close>) is masked by the
  IPv4 rule, since the count of dots is tested before the colon: the result is
  \<open>x.x.x.\<close> followed by the text after the last dot, and it is not of the IPv6
  form \<open>...\<close> followed by anything.
\<close>

theorem maskIP_dots_before_colons:
  "(strings_Count ip (CHR ''.'') = 3 \<and> strings_Contains ip (CHR '':'') \<longrightarrow>
      maskIP ip = Some (''x.x.x.'' @ after_last (CHR ''.'') ip) \<and>
      (\<forall>t. maskIP ip \<noteq> Some (''...'' @ t))) \<and>
   maskIP ''::ffff:203.0.113.77'' = Some ''x.x.x.77''"
proof (intro conjI impI allI)
  assume a: "strings_Count ip (CHR ''.'') = 3 \<and> strings_Contains ip (CHR '':'')"
  then show m: "maskIP ip = Some (''x.x.x.'' @ after_last (CHR ''.'') ip)"
    by (simp add: maskIP_ipv4)
  fix t
  show "maskIP ip \<noteq> Some (''...'' @ t)"
    unfolding m by simp
next
  have "strings_Count ''::ffff:203.0.113.77'' (CHR ''.'') = 3"
    by (simp add: strings_Count_def)
  then have "maskIP ''::ffff:203.0.113.77'' =
      Some (''x.x.x.'' @ after_last (CHR ''.'') ''::ffff:203.0.113.77'')"
    by (rule maskIP_ipv4)
  then show "maskIP ''::ffff:203.0.113.77'' = Some ''x.x.x.77''"
    by (simp add: after_last_def)
qed

theorem maskIP_dots_before_colons_witness:
  "strings_Count ''fe80::1.2.3.4'' (CHR ''.'') = 3 \<and>
   strings_Contains ''fe80::1.2.3.4'' (CHR '':'') \<and>
   maskIP ''fe80::1.2.3.4'' = Some ''x.x.x.4''"
  using maskIP_dots_before_colons [of "''fe80::1.2.3.4''"]
  by (simp add: strings_Count_def strings_Contains_def after_last_def)

section \<open>The claims about the alert state machine\<close>

text \<open>
  Claim C1, amended. For every metric key, every threshold \<open>t\<close> for which \<open>t - 10\<close>
  does not wrap around (\<open>t \<ge> -2^63 + 10\<close>) and every reading of magnitude below
  \<open>2^53\<close> (every percentage): if the reading is above \<open>t\<close> and the flag of the metric
  is clear, the flag is set, the transition is \<open>Fired\<close> and one notification is
  sent; if the reading is at most \<open>t - 10\<close> and the flag is set, the flag is cleared,
  the transition is \<open>Cleared\<close> and nothing is sent; in every other case the flag is
  unchanged and nothing is sent. The block of a metric leaves the flags of all other
  keys alone, and after a tick the flag of the CPU is what the CPU block alone makes of
  it, and the flag of the memory what the memory block alone makes of it.
\<close>

theorem alert_block_hysteresis:
  assumes "is_int64 (threshold - 10)" and "\<bar>percent\<bar> < 2 ^ 53"
    and "m' = alert_block key render percent threshold m"
  shows
    "(of_int threshold < percent \<and> \<not> alertSent_get m key \<longrightarrow>
        alertSent_get m' key \<and> transition key m m' = Fired \<and>
        notifications m m' = [render percent]) \<and>
     (percent \<le> of_int threshold - 10 \<and> alertSent_get m key \<longrightarrow>
        \<not> alertSent_get m' key \<and> transition key m m' = Cleared \<and>
        notifications m m' = []) \<and>
     (\<not> (of_int threshold < percent \<and> \<not> alertSent_get m key) \<and>
      \<not> (percent \<le> of_int threshold - 10 \<and> alertSent_get m key) \<longrightarrow>
        alertSent_get m' key = alertSent_get m key \<and> transition key m m' = NoTransition \<and>
        notifications m m' = []) \<and>
     (\<forall>k. k \<noteq> key \<longrightarrow> alertSent m' k = alertSent m k) \<and>
     (\<forall>M c r. alertSent_get (realTimeAlert_tick M (c, r)) ''cpu'' =
        alertSent_get
          (alert_block ''cpu'' cpu_alert_text (getCPUUsage c) (CPUThreshold (config M)) M)
          ''cpu'') \<and>
     (\<forall>M c r. alertSent_get (realTimeAlert_tick M (c, r)) ''mem'' =
        alertSent_get
          (alert_block ''mem'' mem_alert_text (mem_UsedPercent (getMemoryInfo r))
             (MemThreshold (config M)) M)
          ''mem'')"
proof -
  note eq = alert_block_exact [OF assms(1) assms(2), of key render m]
  have fired: "alertSent_get m' key \<and> transition key m m' = Fired \<and>
      notifications m m' = [render percent]"
    if "of_int threshold < percent \<and> \<not> alertSent_get m key"
    using that assms(3) eq by (simp add: transition_def notifications_def monitor_simps)
  have cleared: "\<not> alertSent_get m' key \<and> transition key m m' = Cleared \<and>
      notifications m m' = []"
    if "percent \<le> of_int threshold - 10 \<and> alertSent_get m key"
    using that assms(3) eq by (simp add: transition_def notifications_def monitor_simps)
  have other: "alertSent_get m' key = alertSent_get m key \<and>
      transition key m m' = NoTransition \<and> notifications m m' = []"
    if "\<not> (of_int threshold < percent \<and> \<not> alertSent_get m key) \<and>
        \<not> (percent \<le> of_int threshold - 10 \<and> alertSent_get m key)"
    using that assms(3) eq
    by (auto simp: transition_def notifications_def monitor_simps)
  have frame: "\<forall>k. k \<noteq> key \<longrightarrow> alertSent m' k = alertSent m k"
    using assms(3) by (simp add: alert_block_frame)
  show ?thesis
    using fired cleared other frame tick_cpu_flag tick_mem_flag by blast
qed

theorem alert_block_hysteresis_witness:
  "is_int64 (80 - 10) \<and> \<bar>85.5 :: real\<bar> < 2 ^ 53 \<and>
   real_of_int 80 < 85.5 \<and>
   \<not> alertSent_get (NewServerMonitor example_config) ''cpu'' \<and>
   alertSent_get
     (alert_block ''cpu'' cpu_alert_text 85.5 80 (NewServerMonitor example_config)) ''cpu'' \<and>
   notifications (NewServerMonitor example_config)
     (alert_block ''cpu'' cpu_alert_text 85.5 80 (NewServerMonitor example_config)) =
     [cpu_alert_text 85.5] \<and>
   (65 :: real) \<le> real_of_int 80 - 10 \<and>
   alertSent_get cpu_firing_monitor ''cpu'' \<and>
   transition ''cpu'' cpu_firing_monitor
     (alert_block ''cpu'' cpu_alert_text 65 80 cpu_firing_monitor) = Cleared \<and>
   transition ''cpu'' cpu_firing_monitor
     (alert_block ''cpu'' cpu_alert_text 75 80 cpu_firing_monitor) = NoTransition"
proof -
  have t: "is_int64 (80 - 10)" by (simp add: is_int64_def)
  have f: "\<not> alertSent_get (NewServerMonitor example_config) ''cpu''"
    by (simp add: NewServerMonitor_def alertSent_get_def)
  have g: "alertSent_get cpu_firing_monitor ''cpu''"
    by (simp add: cpu_firing_monitor_def monitor_simps)
  show ?thesis
    using t f g
      alert_block_hysteresis [where threshold = 80 and percent = "85.5" and key = "''cpu''"
        and render = cpu_alert_text and m = "NewServerMonitor example_config", OF t _ refl]
      alert_block_hysteresis [where threshold = 80 and percent = 65 and key = "''cpu''"
        and render = cpu_alert_text and m = cpu_firing_monitor, OF t _ refl]
      alert_block_hysteresis [where threshold = 80 and percent = 75 and key = "''cpu''"
        and render = cpu_alert_text and m = cpu_firing_monitor, OF t _ refl]
    by simp
qed

text \<open>
  Claim C1 as it is written fails where \<open>threshold - 10\<close> wraps around. With the
  least threshold \<open>-2^63\<close> (which \<^verbatim>\<open>CPU_THRESHOLD=-9223372036854775808\<close>
  configures), the alert firing and a reading of 50 per cent, the reading
  is neither above the threshold with the flag clear nor at most the threshold less
  ten, so the claim leaves the flag unchanged; the program clears it, since
  \<open>-2^63 - 10\<close> wraps to \<open>2^63 - 10\<close>.
\<close>

theorem alert_block_hysteresis_counterexample:
  "min_int64 = - (2 ^ 63) \<and>
   alertSent_get cpu_firing_monitor ''cpu'' \<and>
   \<not> (50 \<le> real_of_int min_int64 - 10) \<and>
   \<not> alertSent_get
       (alert_block ''cpu'' cpu_alert_text 50 min_int64 cpu_firing_monitor) ''cpu''"
proof -
  have g: "alertSent_get cpu_firing_monitor ''cpu''"
    by (simp add: cpu_firing_monitor_def monitor_simps)
  have lt: "\<not> (50 \<le> real_of_int min_int64 - 10)" by (simp add: min_int64_def)
  have d: "min_int64 = - (2 ^ 63)" by (simp add: min_int64_def)
  have n: "\<not> alertSent_get
      (alert_block ''cpu'' cpu_alert_text 50 min_int64 cpu_firing_monitor) ''cpu''"
    using g by (simp add: alert_block_wrap_clears monitor_simps)
  from d g lt n show ?thesis by (intro conjI)
qed

text \<open>
  Claim C5, amended. The clearing boundary is not clamped: for every threshold \<open>t\<close>
  below 10 for which \<open>t - 10\<close> does not wrap around (\<open>-2^63 + 10 \<le> t < 10\<close>) and
  every sequence of readings in \<open>[0, 100]\<close>, a firing flag that is set stays set after
  every number of ticks, and no tick makes a \<open>Cleared\<close> transition; this holds for
  the CPU and for the memory.
\<close>

theorem low_threshold_never_clears:
  "(is_int64 (CPUThreshold (config m) - 10) \<and> CPUThreshold (config m) < 10 \<and>
    (\<forall>s\<in>set samples. 0 \<le> getCPUUsage (fst s) \<and> getCPUUsage (fst s) \<le> 100) \<and>
    alertSent_get m ''cpu'' \<longrightarrow>
      (\<forall>n. alertSent_get (startRealTimeAlert m (take n samples)) ''cpu'' \<and>
           transition ''cpu'' (startRealTimeAlert m (take n samples))
             (startRealTimeAlert m (take (Suc n) samples)) \<noteq> Cleared)) \<and>
   (is_int64 (MemThreshold (config m) - 10) \<and> MemThreshold (config m) < 10 \<and>
    (\<forall>s\<in>set samples. 0 \<le> mem_UsedPercent (getMemoryInfo (snd s)) \<and>
       mem_UsedPercent (getMemoryInfo (snd s)) \<le> 100) \<and>
    alertSent_get m ''mem'' \<longrightarrow>
      (\<forall>n. alertSent_get (startRealTimeAlert m (take n samples)) ''mem'' \<and>
           transition ''mem'' (startRealTimeAlert m (take n samples))
             (startRealTimeAlert m (take (Suc n) samples)) \<noteq> Cleared))"
proof (intro conjI impI allI)
  fix n
  assume a: "is_int64 (CPUThreshold (config m) - 10) \<and> CPUThreshold (config m) < 10 \<and>
    (\<forall>s\<in>set samples. 0 \<le> getCPUUsage (fst s) \<and> getCPUUsage (fst s) \<le> 100) \<and>
    alertSent_get m ''cpu''"
  have sub: "\<forall>s\<in>set (take k samples). 0 \<le> getCPUUsage (fst s) \<and> getCPUUsage (fst s) \<le> 100"
    for k using a by (auto dest: in_set_takeD)
  show "alertSent_get (startRealTimeAlert m (take n samples)) ''cpu''"
    using a sub [of n] by (intro loop_cpu_low_threshold) simp_all
  have "alertSent_get (startRealTimeAlert m (take (Suc n) samples)) ''cpu''"
    using a sub [of "Suc n"] by (intro loop_cpu_low_threshold) simp_all
  then show "transition ''cpu'' (startRealTimeAlert m (take n samples))
      (startRealTimeAlert m (take (Suc n) samples)) \<noteq> Cleared"
    by (rule transition_not_Cleared)
next
  fix n
  assume a: "is_int64 (MemThreshold (config m) - 10) \<and> MemThreshold (config m) < 10 \<and>
    (\<forall>s\<in>set samples. 0 \<le> mem_UsedPercent (getMemoryInfo (snd s)) \<and>
       mem_UsedPercent (getMemoryInfo (snd s)) \<le> 100) \<and>
    alertSent_get m ''mem''"
  have sub: "\<forall>s\<in>set (take k samples). 0 \<le> mem_UsedPercent (getMemoryInfo (snd s)) \<and>
       mem_UsedPercent (getMemoryInfo (snd s)) \<le> 100"
    for k using a by (auto dest: in_set_takeD)
  show "alertSent_get (startRealTimeAlert m (take n samples)) ''mem''"
    using a sub [of n] by (intro loop_mem_low_threshold) simp_all
  have "alertSent_get (startRealTimeAlert m (take (Suc n) samples)) ''mem''"
    using a sub [of "Suc n"] by (intro loop_mem_low_threshold) simp_all
  then show "transition ''mem'' (startRealTimeAlert m (take n samples))
      (startRealTimeAlert m (take (Suc n) samples)) \<noteq> Cleared"
    by (rule transition_not_Cleared)
qed

theorem low_threshold_never_clears_witness:
  "is_int64 (CPUThreshold (config low_threshold_firing) - 10) \<and>
   CPUThreshold (config low_threshold_firing) < 10 \<and>
   0 \<le> getCPUUsage (fst sample_50) \<and> getCPUUsage (fst sample_50) \<le> 100 \<and>
   alertSent_get low_threshold_firing ''cpu'' \<and>
   alertSent_get (startRealTimeAlert low_threshold_firing [sample_50, sample_50]) ''cpu''"
proof -
  have c: "CPUThreshold (config low_threshold_firing) = 5"
    by (simp add: low_threshold_firing_def low_threshold_config_def example_config_def
        NewServerMonitor_def alertSent_set_def)
  have f: "alertSent_get low_threshold_firing ''cpu''"
    by (simp add: low_threshold_firing_def monitor_simps)
  have v: "getCPUUsage (fst sample_50) = 50"
    by (simp add: sample_50_def getCPUUsage_def)
  show ?thesis
    using low_threshold_never_clears [of low_threshold_firing "[sample_50, sample_50]"] c f v
    by (auto simp: is_int64_def dest: spec [of _ 2])
qed

text \<open>
  Claim C5 as it is written fails for the least threshold \<open>-2^63\<close>, which is below
  10: there \<open>threshold - 10\<close> wraps around to \<open>2^63 - 10\<close>, no negative bound, and
  one tick with the CPU at 50 per cent resets the firing flag.
\<close>

theorem low_threshold_never_clears_counterexample:
  "CPUThreshold (config least_threshold_firing) < 10 \<and>
   0 \<le> getCPUUsage (fst sample_50) \<and> getCPUUsage (fst sample_50) \<le> 100 \<and>
   alertSent_get least_threshold_firing ''cpu'' \<and>
   \<not> alertSent_get (startRealTimeAlert least_threshold_firing [sample_50]) ''cpu'' \<and>
   transition ''cpu'' least_threshold_firing
     (startRealTimeAlert least_threshold_firing [sample_50]) = Cleared"
proof -
  have c: "CPUThreshold (config least_threshold_firing) = min_int64"
    by (simp add: least_threshold_firing_def least_threshold_config_def
        NewServerMonitor_def alertSent_set_def)
  have f: "alertSent_get least_threshold_firing ''cpu''"
    by (simp add: least_threshold_firing_def monitor_simps)
  have v: "getCPUUsage (fst sample_50) = 50"
    by (simp add: sample_50_def getCPUUsage_def)
  have "alertSent_get (realTimeAlert_tick least_threshold_firing sample_50) ''cpu'' =
      alertSent_get
        (alert_block ''cpu'' cpu_alert_text 50 min_int64 least_threshold_firing) ''cpu''"
    using tick_cpu_flag [of least_threshold_firing "fst sample_50" "snd sample_50"] c v
    by simp
  then have n: "\<not> alertSent_get (realTimeAlert_tick least_threshold_firing sample_50) ''cpu''"
    using f by (simp add: alert_block_wrap_clears monitor_simps)
  have lt: "min_int64 < 10" by (simp add: min_int64_def)
  show ?thesis
    using c f v n lt by (simp add: transition_def)
qed

text \<open>
  Claim C6, amended. Fire-once, for every threshold \<open>t\<close> for which \<open>t - 10\<close> does not
  wrap around and readings of magnitude below \<open>2^53\<close>: from the all-clear initial
  state a reading above the threshold fires, with one notification; every later
  evaluation with the same or a higher reading, the flag set, changes nothing, makes
  no transition and sends nothing; so a breach episode of any length sends exactly
  one notification, that of its first reading.
\<close>

theorem fire_once:
  assumes "is_int64 (threshold - 10)" and "of_int threshold < v" and "\<bar>v\<bar> < 2 ^ 53"
  shows
    "transition key (NewServerMonitor c)
       (alert_block key render v threshold (NewServerMonitor c)) = Fired \<and>
     notifications (NewServerMonitor c)
       (alert_block key render v threshold (NewServerMonitor c)) = [render v] \<and>
     (\<forall>m w. alertSent_get m key \<and> v \<le> w \<and> \<bar>w\<bar> < 2 ^ 53 \<longrightarrow>
        alert_block key render w threshold m = m \<and>
        transition key m (alert_block key render w threshold m) = NoTransition \<and>
        notifications m (alert_block key render w threshold m) = []) \<and>
     (\<forall>ws. (\<forall>w\<in>set ws. v \<le> w \<and> \<bar>w\<bar> < 2 ^ 53) \<longrightarrow>
        outbox (foldl (\<lambda>s w. alert_block key render w threshold s) (NewServerMonitor c)
          (v # ws)) = [render v])"
proof -
  let ?m0 = "NewServerMonitor c"
  let ?m1 = "alert_block key render v threshold ?m0"
  have clear: "\<not> alertSent_get ?m0 key"
    by (simp add: NewServerMonitor_def alertSent_get_def)
  have m1: "?m1 = alertSent_set (sendMessage ?m0 (render v)) key True"
    using assms(3,2) clear by (rule alert_block_fires)
  have set1: "alertSent_get ?m1 key" by (simp add: m1 monitor_simps)
  have out0: "outbox ?m0 = []" by (simp add: NewServerMonitor_def)
  have out1: "outbox ?m1 = [render v]"
    by (simp add: m1 monitor_simps out0)
  have a: "transition key ?m0 ?m1 = Fired"
    using clear set1 by (simp add: transition_def)
  have b: "notifications ?m0 ?m1 = [render v]"
    by (simp add: notifications_def out1 out0)
  have still: "alert_block key render w threshold m = m"
    if "alertSent_get m key \<and> v \<le> w \<and> \<bar>w\<bar> < 2 ^ 53" for m w
  proof -
    from that assms(2) have "of_int threshold < w" by simp
    with assms(1) that show ?thesis by (intro alert_block_still_firing) simp_all
  qed
  have d: "outbox (foldl (\<lambda>s w. alert_block key render w threshold s) ?m0 (v # ws)) =
      [render v]" if "\<forall>w\<in>set ws. v \<le> w \<and> \<bar>w\<bar> < 2 ^ 53" for ws
  proof -
    have "foldl (\<lambda>s w. alert_block key render w threshold s) ?m1 ws = ?m1"
      using assms(1,2) that set1 by (rule foldl_still_firing)
    then show ?thesis by (simp add: out1)
  qed
  show ?thesis
    using a b still d by simp
qed

theorem fire_once_witness:
  "is_int64 (80 - 10) \<and> real_of_int 80 < 85.5 \<and> \<bar>85.5 :: real\<bar> < 2 ^ 53 \<and>
   transition ''cpu'' (NewServerMonitor example_config)
     (alert_block ''cpu'' cpu_alert_text 85.5 80 (NewServerMonitor example_config)) = Fired \<and>
   outbox (foldl (\<lambda>s w. alert_block ''cpu'' cpu_alert_text w 80 s)
     (NewServerMonitor example_config) [85.5, 85.5, 90, 99]) = [cpu_alert_text 85.5]"
proof -
  have t: "is_int64 (80 - 10)" by (simp add: is_int64_def)
  have v: "real_of_int 80 < 85.5" by simp
  have b: "\<bar>85.5 :: real\<bar> < 2 ^ 53" by simp
  note F = fire_once [OF t v b, of "''cpu''" example_config cpu_alert_text]
  from F have A: "transition ''cpu'' (NewServerMonitor example_config)
      (alert_block ''cpu'' cpu_alert_text 85.5 80 (NewServerMonitor example_config)) = Fired"
    by (rule conjunct1)
  from F have D: "\<forall>ws. (\<forall>w\<in>set ws. 85.5 \<le> w \<and> \<bar>w\<bar> < 2 ^ 53) \<longrightarrow>
      outbox (foldl (\<lambda>s w. alert_block ''cpu'' cpu_alert_text w 80 s)
        (NewServerMonitor example_config) (85.5 # ws)) = [cpu_alert_text 85.5]"
    by blast
  have "\<forall>w\<in>set [85.5, 90, 99 :: real]. 85.5 \<le> w \<and> \<bar>w\<bar> < 2 ^ 53" by simp
  with D have E: "outbox (foldl (\<lambda>s w. alert_block ''cpu'' cpu_alert_text w 80 s)
      (NewServerMonitor example_config) [85.5, 85.5, 90, 99]) = [cpu_alert_text 85.5]"
    by blast
  from t v b A E show ?thesis by (intro conjI)
qed

text \<open>
  Claim C6 as it is written fails for the least threshold \<open>-2^63\<close>: a reading of 50
  is above it and fires from the all-clear state, and the next evaluation with the
  same reading, the flag still set, makes the transition \<open>Cleared\<close>.
\<close>

theorem fire_once_counterexample:
  "min_int64 = - (2 ^ 63) \<and> real_of_int min_int64 < 50 \<and>
   transition ''cpu'' (NewServerMonitor example_config)
     (alert_block ''cpu'' cpu_alert_text 50 min_int64 (NewServerMonitor example_config))
     = Fired \<and>
   alertSent_get
     (alert_block ''cpu'' cpu_alert_text 50 min_int64 (NewServerMonitor example_config))
     ''cpu'' \<and>
   transition ''cpu''
     (alert_block ''cpu'' cpu_alert_text 50 min_int64 (NewServerMonitor example_config))
     (alert_block ''cpu'' cpu_alert_text 50 min_int64
        (alert_block ''cpu'' cpu_alert_text 50 min_int64
           (NewServerMonitor example_config)))
     = Cleared"
proof -
  let ?m0 = "NewServerMonitor example_config"
  have clear: "\<not> alertSent_get ?m0 ''cpu''"
    by (simp add: NewServerMonitor_def alertSent_get_def)
  have m1: "alert_block ''cpu'' cpu_alert_text 50 min_int64 ?m0 =
      alertSent_set (sendMessage ?m0 (cpu_alert_text 50)) ''cpu'' True"
    using clear by (rule alert_block_wrap_fires)
  have set1: "alertSent_get (alertSent_set (sendMessage ?m0 (cpu_alert_text 50)) ''cpu'' True)
      ''cpu''"
    by (simp add: monitor_simps)
  have d: "min_int64 = - (2 ^ 63)" by (simp add: min_int64_def)
  have lt: "real_of_int min_int64 < 50" by (simp add: min_int64_def)
  have a: "transition ''cpu'' ?m0 (alert_block ''cpu'' cpu_alert_text 50 min_int64 ?m0) = Fired"
    using clear by (simp add: m1 transition_def monitor_simps)
  have b: "alertSent_get (alert_block ''cpu'' cpu_alert_text 50 min_int64 ?m0) ''cpu''"
    by (simp add: m1 monitor_simps)
  have c: "transition ''cpu'' (alert_block ''cpu'' cpu_alert_text 50 min_int64 ?m0)
      (alert_block ''cpu'' cpu_alert_text 50 min_int64
         (alert_block ''cpu'' cpu_alert_text 50 min_int64 ?m0)) = Cleared"
    using alert_block_wrap_clears [OF set1, of cpu_alert_text]
    by (simp add: m1 transition_def monitor_simps)
  from d lt a b c show ?thesis by (intro conjI)
qed

section \<open>The claim about the scheduler\<close>

lemma Parse_1500: "time_Parse_1504 ''15:00'' = Some (15, 0)"
  by (simp add: time_Parse_1504_def parse_hour_def parse_minute_def is_digit_def digit_val_def)

lemma Date_20250626_10: "go_Date 2025 6 26 10 0 0 0 cst = 1750903200000000000"
  by (simp add: go_Date_def days_from_civil_def days_before_year_def days_before_month_def
      is_leap_def unix_epoch_days_def cst_def Second_def)

lemma Date_20250626_15: "go_Date 2025 6 26 15 0 0 0 cst = 1750921200000000000"
  by (simp add: go_Date_def days_from_civil_def days_before_year_def days_before_month_def
      is_leap_def unix_epoch_days_def cst_def Second_def)

lemma Date_20250626_16: "go_Date 2025 6 26 16 0 0 0 cst = 1750924800000000000"
  by (simp add: go_Date_def days_from_civil_def days_before_year_def days_before_month_def
      is_leap_def unix_epoch_days_def cst_def Second_def)

lemma Date_20250627_15: "go_Date 2025 6 27 15 0 0 0 cst = 1751007600000000000"
  by (simp add: go_Date_def days_from_civil_def days_before_year_def days_before_month_def
      is_leap_def unix_epoch_days_def cst_def Second_def)

lemma today_at_20250626:
  "today_at 1750903200000000000 15 0 = 1750921200000000000"
  "today_at 1750921200000000000 15 0 = 1750921200000000000"
  "today_at 1750924800000000000 15 0 = 1750921200000000000"
  by (simp_all add: today_at_def day_start_def zone_seconds_def cst_def Second_def)

text \<open>
  Claim C3, amended. For every current instant and every report time that parses as
  HH:MM, the next report is at today's HH:MM:00 in the fixed offset UTC+8 (the instant
  with the civil date of the current instant in that zone and the clock time
  HH:MM:00.000000000) when the current instant is before or at that target, and at the
  target advanced by exactly 24 hours when the current instant is strictly after it.
  With the report time 15:00, the current time 2025-06-26T16:00:00+08:00 gives
  2025-06-27T15:00:00+08:00, and 2025-06-26T10:00:00+08:00 gives
  2025-06-26T15:00:00+08:00.
\<close>

theorem next_report_today_or_tomorrow:
  "(time_Parse_1504 report_time = Some (h, mi) \<longrightarrow>
      go_civil (today_at now h mi) cst = go_civil now cst \<and>
      go_Hour (today_at now h mi) cst = h \<and>
      go_Minute (today_at now h mi) cst = mi \<and>
      go_Second (today_at now h mi) cst = 0 \<and>
      today_at now h mi mod Second = 0 \<and>
      next_report now report_time =
        Some (if now \<le> today_at now h mi then today_at now h mi
              else today_at now h mi + 24 * Hour)) \<and>
   next_report (go_Date 2025 6 26 16 0 0 0 cst) ''15:00'' =
     Some (go_Date 2025 6 27 15 0 0 0 cst) \<and>
   next_report (go_Date 2025 6 26 10 0 0 0 cst) ''15:00'' =
     Some (go_Date 2025 6 26 15 0 0 0 cst)"
proof (intro conjI impI)
  assume p: "time_Parse_1504 report_time = Some (h, mi)"
  from time_Parse_1504_range [OF p]
  have r: "0 \<le> h" "h < 24" "0 \<le> mi" "mi < 60" by simp_all
  from r show "go_civil (today_at now h mi) cst = go_civil now cst"
    by (rule today_at_fields)
  from r show "go_Hour (today_at now h mi) cst = h" by (rule today_at_fields)
  from r show "go_Minute (today_at now h mi) cst = mi" by (rule today_at_fields)
  from r show "go_Second (today_at now h mi) cst = 0" by (rule today_at_fields)
  from r show "today_at now h mi mod Second = 0" by (rule today_at_fields)
  show "next_report now report_time =
      Some (if now \<le> today_at now h mi then today_at now h mi
            else today_at now h mi + 24 * Hour)"
    by (simp add: next_report_eq [OF p])
next
  show "next_report (go_Date 2025 6 26 16 0 0 0 cst) ''15:00'' =
      Some (go_Date 2025 6 27 15 0 0 0 cst)"
    by (simp add: next_report_eq [OF Parse_1500] Date_20250626_16 Date_20250627_15
        today_at_20250626 Hour_def Minute_def Second_def)
next
  show "next_report (go_Date 2025 6 26 10 0 0 0 cst) ''15:00'' =
      Some (go_Date 2025 6 26 15 0 0 0 cst)"
    by (simp add: next_report_eq [OF Parse_1500] Date_20250626_10 Date_20250626_15
        today_at_20250626)
qed

theorem next_report_today_or_tomorrow_witness:
  "time_Parse_1504 ''15:00'' = Some (15, 0) \<and>
   go_civil (today_at (go_Date 2025 6 26 16 0 0 0 cst) 15 0) cst =
     go_civil (go_Date 2025 6 26 16 0 0 0 cst) cst \<and>
   go_Hour (today_at (go_Date 2025 6 26 16 0 0 0 cst) 15 0) cst = 15 \<and>
   today_at (go_Date 2025 6 26 16 0 0 0 cst) 15 0 = go_Date 2025 6 26 15 0 0 0 cst \<and>
   next_report (go_Date 2025 6 26 16 0 0 0 cst) ''15:00'' =
     Some (go_Date 2025 6 26 15 0 0 0 cst + 24 * Hour)"
proof -
  note T = next_report_today_or_tomorrow
    [of "''15:00''" 15 0 "go_Date 2025 6 26 16 0 0 0 cst"]
  have t: "today_at (go_Date 2025 6 26 16 0 0 0 cst) 15 0 = go_Date 2025 6 26 15 0 0 0 cst"
    by (simp add: Date_20250626_16 Date_20250626_15 today_at_20250626)
  have lt: "\<not> go_Date 2025 6 26 16 0 0 0 cst \<le> go_Date 2025 6 26 15 0 0 0 cst"
    by (simp add: Date_20250626_16 Date_20250626_15)
  from T Parse_1500 have a: "go_civil (today_at (go_Date 2025 6 26 16 0 0 0 cst) 15 0) cst =
      go_civil (go_Date 2025 6 26 16 0 0 0 cst) cst"
    and b: "go_Hour (today_at (go_Date 2025 6 26 16 0 0 0 cst) 15 0) cst = 15"
    and c: "next_report (go_Date 2025 6 26 16 0 0 0 cst) ''15:00'' =
      Some (if go_Date 2025 6 26 16 0 0 0 cst \<le> today_at (go_Date 2025 6 26 16 0 0 0 cst) 15 0
            then today_at (go_Date 2025 6 26 16 0 0 0 cst) 15 0
            else today_at (go_Date 2025 6 26 16 0 0 0 cst) 15 0 + 24 * Hour)"
    by blast+
  from c have c': "next_report (go_Date 2025 6 26 16 0 0 0 cst) ''15:00'' =
      Some (go_Date 2025 6 26 15 0 0 0 cst + 24 * Hour)"
    unfolding t using lt by simp
  from Parse_1500 a b t c' show ?thesis by (intro conjI)
qed

text \<open>
  Claim C3 as it is written fails when the current instant is the target itself: the
  program tests \<^verbatim>\<open>beijingTime.After(targetTime)\<close>, which is strict, so at
  2025-06-26T15:00:00+08:00 sharp, with the report time 15:00, the next report is at
  that same instant and not 24 hours later.
\<close>

theorem next_report_at_target_counterexample:
  "time_Parse_1504 ''15:00'' = Some (15, 0) \<and>
   today_at (go_Date 2025 6 26 15 0 0 0 cst) 15 0 = go_Date 2025 6 26 15 0 0 0 cst \<and>
   next_report (go_Date 2025 6 26 15 0 0 0 cst) ''15:00'' =
     Some (go_Date 2025 6 26 15 0 0 0 cst) \<and>
   next_report (go_Date 2025 6 26 15 0 0 0 cst) ''15:00'' \<noteq>
     Some (go_Date 2025 6 26 15 0 0 0 cst + 24 * Hour)"
proof -
  have t: "today_at (go_Date 2025 6 26 15 0 0 0 cst) 15 0 = go_Date 2025 6 26 15 0 0 0 cst"
    by (simp add: Date_20250626_15 today_at_20250626)
  have n: "next_report (go_Date 2025 6 26 15 0 0 0 cst) ''15:00'' =
      Some (go_Date 2025 6 26 15 0 0 0 cst)"
    by (simp add: next_report_eq [OF Parse_1500] t)
  have d: "next_report (go_Date 2025 6 26 15 0 0 0 cst) ''15:00'' \<noteq>
      Some (go_Date 2025 6 26 15 0 0 0 cst + 24 * Hour)"
    unfolding n by (simp add: Hour_def Minute_def Second_def)
  from Parse_1500 t n d show ?thesis by (intro conjI)
qed

section \<open>The claim about uptime formatting\<close>

text \<open>
  Claim C9, amended. For every uptime of at most 9223372036 seconds (whose nanoseconds
  fit an \<^verbatim>\<open>int64\<close>; about 292 years), with its whole days, its hours of the day
  and its minutes of the hour: the rendered string holds the days, the hours and the
  minutes when the days are positive; the hours and the minutes and no days when the
  days are 0 and the hours positive; the minutes only when both are 0. So 0 seconds
  renders as the minutes followed by the minutes word, with the number 0, and 3661
  seconds as 1 hour and 1 minute with no days.
\<close>

theorem formatUptime_forms:
  "(uptime \<le> 9223372036 \<longrightarrow>
      formatUptime uptime =
        (if 0 < uptime div 86400 then
           Sprintf_d (int (uptime div 86400)) @ str_days @
           Sprintf_d (int (uptime div 3600 mod 24)) @ str_hours @
           Sprintf_d (int (uptime div 60 mod 60)) @ str_minutes
         else if 0 < uptime div 3600 mod 24 then
           Sprintf_d (int (uptime div 3600 mod 24)) @ str_hours @
           Sprintf_d (int (uptime div 60 mod 60)) @ str_minutes
         else Sprintf_d (int (uptime div 60 mod 60)) @ str_minutes)) \<and>
   formatUptime 0 = ''0'' @ str_minutes \<and>
   formatUptime 3661 = ''1'' @ str_hours @ ''1'' @ str_minutes"
proof (intro conjI impI)
  assume "uptime \<le> 9223372036"
  then have "int uptime * Second < 2 ^ 63" by (simp add: Second_def)
  then show "formatUptime uptime =
      (if 0 < uptime div 86400 then
         Sprintf_d (int (uptime div 86400)) @ str_days @
         Sprintf_d (int (uptime div 3600 mod 24)) @ str_hours @
         Sprintf_d (int (uptime div 60 mod 60)) @ str_minutes
       else if 0 < uptime div 3600 mod 24 then
         Sprintf_d (int (uptime div 3600 mod 24)) @ str_hours @
         Sprintf_d (int (uptime div 60 mod 60)) @ str_minutes
       else Sprintf_d (int (uptime div 60 mod 60)) @ str_minutes)"
    by (rule formatUptime_in_range)
next
  show "formatUptime 0 = ''0'' @ str_minutes"
    by (simp add: formatUptime_in_range Second_def show_simps)
next
  show "formatUptime 3661 = ''1'' @ str_hours @ ''1'' @ str_minutes"
    by (simp add: formatUptime_in_range Second_def show_simps)
qed

theorem formatUptime_forms_witness:
  "(1326780 :: nat) \<le> 9223372036 \<and>
   formatUptime 1326780 =
     ''15'' @ str_days @ ''8'' @ str_hours @ ''33'' @ str_minutes"
  using formatUptime_forms [of 1326780]
  by (simp add: show_simps)

text \<open>
  Claim C9 as it is written fails for an uptime of 9223372037 seconds: it has 106751
  whole days, and the program renders it with the minutes only, as \<open>-47\<close> minutes,
  since \<^verbatim>\<open>time.Duration(uptime) * time.Second\<close> wraps around.
\<close>

theorem formatUptime_overflow_counterexample:
  "(0 :: nat) < 9223372037 div 86400 \<and>
   formatUptime 9223372037 = ''-47'' @ str_minutes"
proof -
  have "formatUptime 9223372037 = ''-47'' @ str_minutes"
    by (simp add: formatUptime_def Let_def uptime_wraps wrapped_Hours wrapped_Minutes
        wrapped_fields show_simps)
  then show ?thesis by simp
qed

section \<open>The claim about configuration precedence\<close>

text \<open>
  Claim C2, amended. The precedence at startup is: an environment variable overrides the
  built-in default, and the file \<^verbatim>\<open>config.json\<close> overrides the environment
  variable. Each field of the loaded configuration is the value of the file if the file
  holds one, else the value of its environment variable if that is set (and, for a
  number, parses), else the default; so for every field set both in the file and in
  its environment variable, the loaded configuration carries the value of the file.
\<close>

theorem loadConfig_precedence:
  "loadConfig getenv file =
     (if BotToken (merged_config getenv file) = '''' then Inl MissingBotToken
      else if ChatID (merged_config getenv file) = 0 then Inl MissingChatID
      else Inr (merged_config getenv file)) \<and>
   (loadConfig getenv (Some j) = Inr c \<longrightarrow>
      (\<forall>v. json_bot_token j = Some v \<longrightarrow> BotToken c = v) \<and>
      (\<forall>v. json_chat_id j = Some v \<longrightarrow> ChatID c = v) \<and>
      (\<forall>v. json_report_time j = Some v \<longrightarrow> ReportTime c = v) \<and>
      (\<forall>v. json_custom_message j = Some v \<longrightarrow> CustomMessage c = v) \<and>
      (\<forall>v. json_cpu_threshold j = Some v \<longrightarrow> CPUThreshold c = v) \<and>
      (\<forall>v. json_mem_threshold j = Some v \<longrightarrow> MemThreshold c = v))"
proof (intro conjI impI allI)
  show "loadConfig getenv file =
     (if BotToken (merged_config getenv file) = '''' then Inl MissingBotToken
      else if ChatID (merged_config getenv file) = 0 then Inl MissingChatID
      else Inr (merged_config getenv file))"
    by (rule loadConfig_merged)
next
  fix v assume l: "loadConfig getenv (Some j) = Inr c" and f: "json_bot_token j = Some v"
  from l have "c = merged_config getenv (Some j)" by (rule loadConfig_Inr)
  then show "BotToken c = v"
    using f by (simp add: merged_config_def first_of_Some)
next
  fix v assume l: "loadConfig getenv (Some j) = Inr c" and f: "json_chat_id j = Some v"
  from l have "c = merged_config getenv (Some j)" by (rule loadConfig_Inr)
  then show "ChatID c = v"
    using f by (simp add: merged_config_def first_of_Some)
next
  fix v assume l: "loadConfig getenv (Some j) = Inr c" and f: "json_report_time j = Some v"
  from l have "c = merged_config getenv (Some j)" by (rule loadConfig_Inr)
  then show "ReportTime c = v"
    using f by (simp add: merged_config_def first_of_Some)
next
  fix v assume l: "loadConfig getenv (Some j) = Inr c" and f: "json_custom_message j = Some v"
  from l have "c = merged_config getenv (Some j)" by (rule loadConfig_Inr)
  then show "CustomMessage c = v"
    using f by (simp add: merged_config_def first_of_Some)
next
  fix v assume l: "loadConfig getenv (Some j) = Inr c" and f: "json_cpu_threshold j = Some v"
  from l have "c = merged_config getenv (Some j)" by (rule loadConfig_Inr)
  then show "CPUThreshold c = v"
    using f by (simp add: merged_config_def first_of_Some)
next
  fix v assume l: "loadConfig getenv (Some j) = Inr c" and f: "json_mem_threshold j = Some v"
  from l have "c = merged_config getenv (Some j)" by (rule loadConfig_Inr)
  then show "MemThreshold c = v"
    using f by (simp add: merged_config_def first_of_Some)
qed

theorem loadConfig_precedence_witness:
  "loadConfig example_env (Some example_file) =
     Inr \<lparr>BotToken = ''123456:token'', ChatID = - 1001234567890, ReportTime = ''18:30'',
          CustomMessage = default_custom_message, CPUThreshold = 90, MemThreshold = 70\<rparr> \<and>
   json_mem_threshold example_file = Some 70 \<and>
   json_cpu_threshold example_file = None \<and>
   env_int example_env ''CPU_THRESHOLD'' = Some 90"
proof -
  from loadConfig_precedence [of example_env "Some example_file"]
  have "loadConfig example_env (Some example_file) =
     (if BotToken (merged_config example_env (Some example_file)) = '''' then
        Inl MissingBotToken
      else if ChatID (merged_config example_env (Some example_file)) = 0 then
        Inl MissingChatID
      else Inr (merged_config example_env (Some example_file)))"
    by (rule conjunct1)
  then have l: "loadConfig example_env (Some example_file) =
     Inr \<lparr>BotToken = ''123456:token'', ChatID = - 1001234567890, ReportTime = ''18:30'',
          CustomMessage = default_custom_message, CPUThreshold = 90, MemThreshold = 70\<rparr>"
    by (simp add: example_merged)
  have a: "json_mem_threshold example_file = Some 70"
    and b: "json_cpu_threshold example_file = None"
    by (simp_all add: example_file_def)
  have e: "env_int example_env ''CPU_THRESHOLD'' = Some 90"
    by (simp add: env_int_def example_env_def ParseInt_90)
  from l a b e show ?thesis by (intro conjI)
qed

text \<open>
  Claim C2 as it is written fails: \<^verbatim>\<open>loadConfig\<close> reads the environment first
  and decodes the file over the result. With \<open>REPORT_TIME=09:00\<close> in the environment
  and \<open>"report_time": "18:30"\<close> in the file, the loaded report time is \<open>18:30\<close>,
  not the value of the environment variable.
\<close>

theorem loadConfig_env_over_file_counterexample:
  "env_string example_env ''REPORT_TIME'' = Some ''09:00'' \<and>
   json_report_time example_file = Some ''18:30'' \<and>
   loadConfig example_env (Some example_file) =
     Inr \<lparr>BotToken = ''123456:token'', ChatID = - 1001234567890, ReportTime = ''18:30'',
          CustomMessage = default_custom_message, CPUThreshold = 90, MemThreshold = 70\<rparr> \<and>
   ReportTime
     \<lparr>BotToken = ''123456:token'', ChatID = - 1001234567890, ReportTime = ''18:30'',
      CustomMessage = default_custom_message, CPUThreshold = 90, MemThreshold = 70\<rparr>
     \<noteq> ''09:00''"
proof -
  have a: "env_string example_env ''REPORT_TIME'' = Some ''09:00''"
    by (simp add: env_string_def example_env_def)
  have b: "json_report_time example_file = Some ''18:30''"
    by (simp add: example_file_def)
  have d: "ReportTime
     \<lparr>BotToken = ''123456:token'', ChatID = - 1001234567890, ReportTime = ''18:30'',
      CustomMessage = default_custom_message, CPUThreshold = 90, MemThreshold = 70\<rparr>
     \<noteq> ''09:00''"
    by simp
  from a b example_loaded d show ?thesis by (intro conjI)
qed

section \<open>The claims about the alert pass and about retrieval failures\<close>

text \<open>
  Claim C7. The alert pass after the report is stateless with respect to the alert
  engine: \<^verbatim>\<open>checkAndSendAlert\<close> leaves the map of firing flags (and the
  configuration) unchanged, as does the whole round of the scheduler that sends the
  report and runs the pass; what the pass sends does not depend on that map, and for
  percentage readings (of magnitude below \<open>2^53\<close>) it sends one combined message,
  made of the lines of the metrics strictly above their thresholds, exactly when the
  CPU or the memory reading is strictly above its configured threshold, and nothing
  otherwise.
\<close>

theorem checkAndSendAlert_stateless:
  "alertSent (checkAndSendAlert m p) = alertSent m \<and>
   config (checkAndSendAlert m p) = config m \<and>
   (\<forall>flags. outbox (checkAndSendAlert (m\<lparr>alertSent := flags\<rparr>) p) =
      outbox (checkAndSendAlert m p)) \<and>
   (\<forall>r m'. scheduledReport_round m r p = Some m' \<longrightarrow> alertSent m' = alertSent m) \<and>
   (\<bar>getCPUUsage (a_cpu p)\<bar> < 2 ^ 53 \<and> \<bar>mem_UsedPercent (getMemoryInfo (a_mem p))\<bar> < 2 ^ 53 \<longrightarrow>
      (if real_of_int (CPUThreshold (config m)) < getCPUUsage (a_cpu p) \<or>
          real_of_int (MemThreshold (config m)) < mem_UsedPercent (getMemoryInfo (a_mem p))
       then notifications m (checkAndSendAlert m p) =
              [alert_notice (breaches m p) (a_now p)] \<and> breaches m p \<noteq> []
       else notifications m (checkAndSendAlert m p) = []))"
proof (intro conjI allI impI)
  show "alertSent (checkAndSendAlert m p) = alertSent m"
    by (rule checkAndSendAlert_frame)
  show "config (checkAndSendAlert m p) = config m"
    by (rule checkAndSendAlert_frame)
  show "outbox (checkAndSendAlert (m\<lparr>alertSent := flags\<rparr>) p) =
      outbox (checkAndSendAlert m p)" for flags
    by (rule checkAndSendAlert_ignores_flags)
  show "alertSent m' = alertSent m" if "scheduledReport_round m r p = Some m'" for r m'
    using that by (rule scheduledReport_round_flags)
next
  assume "\<bar>getCPUUsage (a_cpu p)\<bar> < 2 ^ 53 \<and>
    \<bar>mem_UsedPercent (getMemoryInfo (a_mem p))\<bar> < 2 ^ 53"
  then have e: "checkAndSendAlert m p =
     (if breaches m p = [] then m else sendMessage m (alert_notice (breaches m p) (a_now p)))"
    by (intro checkAndSendAlert_exact) simp_all
  have b: "breaches m p = [] \<longleftrightarrow>
     \<not> (real_of_int (CPUThreshold (config m)) < getCPUUsage (a_cpu p) \<or>
        real_of_int (MemThreshold (config m)) < mem_UsedPercent (getMemoryInfo (a_mem p)))"
    by (simp add: breaches_def)
  show "if real_of_int (CPUThreshold (config m)) < getCPUUsage (a_cpu p) \<or>
          real_of_int (MemThreshold (config m)) < mem_UsedPercent (getMemoryInfo (a_mem p))
       then notifications m (checkAndSendAlert m p) =
              [alert_notice (breaches m p) (a_now p)] \<and> breaches m p \<noteq> []
       else notifications m (checkAndSendAlert m p) = []"
    using b by (simp add: e notifications_def monitor_simps)
qed

theorem checkAndSendAlert_stateless_witness:
  "alertSent_get cpu_firing_monitor ''cpu'' \<and>
   \<bar>getCPUUsage (a_cpu cpu_high_probe)\<bar> < 2 ^ 53 \<and>
   \<bar>mem_UsedPercent (getMemoryInfo (a_mem cpu_high_probe))\<bar> < 2 ^ 53 \<and>
   real_of_int (CPUThreshold (config cpu_firing_monitor)) < getCPUUsage (a_cpu cpu_high_probe) \<and>
   notifications cpu_firing_monitor (checkAndSendAlert cpu_firing_monitor cpu_high_probe) =
     [alert_notice [cpu_high_text 85.5] 1750921205000000000] \<and>
   alertSent (checkAndSendAlert cpu_firing_monitor cpu_high_probe) =
     alertSent cpu_firing_monitor \<and>
   notifications cpu_firing_monitor (checkAndSendAlert cpu_firing_monitor quiet_probe) = []"
proof -
  have f: "alertSent_get cpu_firing_monitor ''cpu''"
    by (simp add: cpu_firing_monitor_def monitor_simps)
  have c: "CPUThreshold (config cpu_firing_monitor) = 80"
      "MemThreshold (config cpu_firing_monitor) = 80"
    by (simp_all add: cpu_firing_monitor_def monitor_simps NewServerMonitor_def
        example_config_def)
  have v: "getCPUUsage (a_cpu cpu_high_probe) = 85.5"
      "mem_UsedPercent (getMemoryInfo (a_mem cpu_high_probe)) = 40"
      "a_now cpu_high_probe = 1750921205000000000"
    by (simp_all add: cpu_high_probe_def getCPUUsage_def getMemoryInfo_def)
  have q: "getCPUUsage (a_cpu quiet_probe) = 40"
      "mem_UsedPercent (getMemoryInfo (a_mem quiet_probe)) = 40"
    by (simp_all add: quiet_probe_def getCPUUsage_def getMemoryInfo_def)
  have b: "breaches cpu_firing_monitor cpu_high_probe = [cpu_high_text 85.5]"
    by (simp add: breaches_def c v)
  show ?thesis
    using f checkAndSendAlert_stateless [of cpu_firing_monitor cpu_high_probe]
      checkAndSendAlert_stateless [of cpu_firing_monitor quiet_probe]
    by (simp add: c v q b)
qed

text \<open>
  Claim C8. No retrieval error leaves a retrieval helper: \<^verbatim>\<open>getCPUUsage\<close>
  returns 0 when the retrieval fails or gives no samples, the helpers for the memory,
  the disk, the network and the host return a zero value when it fails, and
  \<^verbatim>\<open>getLocationInfo\<close> returns the placeholder for the IP and for the
  location when the request or the reading of its body fails or the body has no
  \<open>ip=\<close> and no \<open>loc=\<close> line, and never an empty IP or location. So the report is built whatever the retrievals return, and the round of
  the scheduler that builds it, sends it and runs the alert pass completes.
\<close>

theorem retrieval_failures_are_placeholders:
  "getCPUUsage (percent, Some err) = 0 \<and>
   getCPUUsage ([], no_err) = 0 \<and>
   getMemoryInfo (memInfo, Some err) = VirtualMemoryStat_zero \<and>
   getDiskInfo (diskInfo, Some err) = UsageStat_zero \<and>
   getNetworkInfo (stats, Some err) = \<lparr>SentGB = 0, RecvGB = 0\<rparr> \<and>
   getNetworkInfo ([], no_err) = \<lparr>SentGB = 0, RecvGB = 0\<rparr> \<and>
   getHostInfo (hostInfo, Some err) = InfoStat_zero \<and>
   getLocationInfo (GetFailed err) = \<lparr>IP = unknown, Location = unknown, Country = ''''\<rparr> \<and>
   getLocationInfo (ReadFailed err) = \<lparr>IP = unknown, Location = unknown, Country = ''''\<rparr> \<and>
   ((\<forall>line\<in>set (strings_Split body (CHR 0x0A)).
        \<not> strings_HasPrefix line ''ip='' \<and> \<not> strings_HasPrefix line ''loc='') \<longrightarrow>
      IP (getLocationInfo (Body body)) = unknown \<and>
      Location (getLocationInfo (Body body)) = unknown) \<and>
   IP (getLocationInfo resp) \<noteq> '''' \<and>
   Location (getLocationInfo resp) \<noteq> '''' \<and>
   (\<exists>report. generateReport m p = Some report) \<and>
   (\<exists>report. scheduledReport_round m p a =
      Some (checkAndSendAlert (sendMessage m report) a) \<and> generateReport m p = Some report)"
proof -
  have helpers:
    "getCPUUsage (percent, Some err) = 0"
    "getCPUUsage ([], no_err) = 0"
    "getMemoryInfo (memInfo, Some err) = VirtualMemoryStat_zero"
    "getDiskInfo (diskInfo, Some err) = UsageStat_zero"
    "getNetworkInfo (stats, Some err) = \<lparr>SentGB = 0, RecvGB = 0\<rparr>"
    "getNetworkInfo ([], no_err) = \<lparr>SentGB = 0, RecvGB = 0\<rparr>"
    "getHostInfo (hostInfo, Some err) = InfoStat_zero"
    by (simp_all add: getCPUUsage_def getMemoryInfo_def getDiskInfo_def getNetworkInfo_def
        getHostInfo_def)
  have loc:
    "getLocationInfo (GetFailed err) = \<lparr>IP = unknown, Location = unknown, Country = ''''\<rparr>"
    "getLocationInfo (ReadFailed err) = \<lparr>IP = unknown, Location = unknown, Country = ''''\<rparr>"
    by (simp_all add: getLocationInfo_def)
  obtain report where r: "generateReport m p = Some report"
    using generateReport_total by blast
  then have s: "scheduledReport_round m p a =
      Some (checkAndSendAlert (sendMessage m report) a)"
    by (simp add: scheduledReport_round_def)
  have page: "IP (getLocationInfo (Body body)) = unknown \<and>
      Location (getLocationInfo (Body body)) = unknown"
    if "\<forall>line\<in>set (strings_Split body (CHR 0x0A)).
        \<not> strings_HasPrefix line ''ip='' \<and> \<not> strings_HasPrefix line ''loc=''"
    using that by (rule getLocationInfo_no_fields)
  show ?thesis
    using helpers loc page getLocationInfo_not_empty [of resp] r s by blast
qed

theorem retrieval_failures_are_placeholders_witness:
  "getCPUUsage (fst (p_cpu failed_probe), Some ''timeout'') = 0 \<and>
   p_cpu failed_probe = ([], Some ''timeout'') \<and>
   getLocationInfo (p_trace failed_probe) =
     \<lparr>IP = unknown, Location = unknown, Country = ''''\<rparr> \<and>
   (\<exists>report. generateReport (NewServerMonitor example_config) failed_probe = Some report)"
proof -
  note T = retrieval_failures_are_placeholders
    [where percent = "fst (p_cpu failed_probe)" and err = "''timeout''"
      and m = "NewServerMonitor example_config" and p = failed_probe]
  have a: "getCPUUsage (fst (p_cpu failed_probe), Some ''timeout'') = 0"
    using T by (rule conjunct1)
  have b: "p_cpu failed_probe = ([], Some ''timeout'')"
    by (simp add: failed_probe_def)
  have "p_trace failed_probe = GetFailed ''timeout''"
    by (simp add: failed_probe_def)
  then have c: "getLocationInfo (p_trace failed_probe) =
     \<lparr>IP = unknown, Location = unknown, Country = ''''\<rparr>"
    using T by simp
  have d: "\<exists>report. generateReport (NewServerMonitor example_config) failed_probe = Some report"
    using T by blast
  from a b c d show ?thesis by (intro conjI)
qed

end
